theory Spec2Isabelle
  imports Complex_Main "HOL-Library.Multiset"
begin

section \<open>Python values\<close>

text \<open>
  A Python \<open>str\<close> is a sequence of Unicode code points and \<open>len\<close> counts code points,
  so a string is a list of code points. \<open>u\<close> turns an ASCII literal into such a string.
  Python floats are modelled as reals: comparisons, signs, absolute values and the order
  of the arithmetic are those of the source; rounding and overflow are outside the model.
  The floats that are not numbers (the infinities and NaN) are the subject of a section
  of their own, which repeats the fetch of the positions with them.
\<close>

type_synonym pystr = "nat list"

definition u :: "string \<Rightarrow> pystr" where
  "u s = map of_char s"

text \<open>What \<open>response.json()\<close> can return. A dict is the list of its items; lookup is \<open>map_of\<close>.\<close>

datatype json =
    JNull
  | JBool bool
  | JNum real
  | JStr pystr
  | JArr "json list"
  | JObj "(pystr \<times> json) list"

datatype py_exception =
    Timeout
  | ConnectionError
  | JSONDecodeError
  | AttributeError
  | TypeError
  | ValueError

text \<open>
  The outcome of \<open>requests.post\<close>: it raises, or there is a response with a status code
  and a body; the body is \<open>None\<close> when \<open>response.json()\<close> raises on it.
\<close>

datatype http_result =
    RequestRaises py_exception
  | Response int "json option"

text \<open>\<open>d.get(k, default)\<close> on a dict.\<close>

definition dict_get :: "(pystr \<times> json) list \<Rightarrow> pystr \<Rightarrow> json \<Rightarrow> json" where
  "dict_get d k dflt = (case map_of d k of None \<Rightarrow> dflt | Some v \<Rightarrow> v)"

text \<open>\<open>x.get(k, default)\<close> on any value: only a dict has the method.\<close>

fun py_get :: "json \<Rightarrow> pystr \<Rightarrow> json \<Rightarrow> py_exception + json" where
  "py_get (JObj d) k dflt = Inr (dict_get d k dflt)"
| "py_get JNull k dflt = Inl AttributeError"
| "py_get (JBool b) k dflt = Inl AttributeError"
| "py_get (JNum r) k dflt = Inl AttributeError"
| "py_get (JStr s) k dflt = Inl AttributeError"
| "py_get (JArr xs) k dflt = Inl AttributeError"

text \<open>Sequencing of statements that may raise: the first exception ends the block.\<close>

fun and_then :: "'e + 'a \<Rightarrow> ('a \<Rightarrow> 'e + 'b) \<Rightarrow> 'e + 'b" where
  "and_then (Inl e) f = Inl e"
| "and_then (Inr x) f = f x"

text \<open>Truth value of \<open>if x:\<close>.\<close>

fun truthy :: "json \<Rightarrow> bool" where
  "truthy JNull = False"
| "truthy (JBool b) = b"
| "truthy (JNum r) = (r \<noteq> 0)"
| "truthy (JStr s) = (s \<noteq> [])"
| "truthy (JArr xs) = (xs \<noteq> [])"
| "truthy (JObj d) = (d \<noteq> [])"

text \<open>
  \<open>for x in v\<close>: a list gives its elements, a dict its keys, a string its characters;
  anything else is not iterable.
\<close>

fun py_iter :: "json \<Rightarrow> py_exception + json list" where
  "py_iter (JArr xs) = Inr xs"
| "py_iter (JObj d) = Inr (map JStr (remdups (map fst d)))"
| "py_iter (JStr s) = Inr (map (\<lambda>c. JStr [c]) s)"
| "py_iter JNull = Inl TypeError"
| "py_iter (JBool b) = Inl TypeError"
| "py_iter (JNum r) = Inl TypeError"

text \<open>
  \<open>float(v)\<close>. The builtin's reading of a string is the parameter \<open>float_str\<close>
  (\<open>None\<close> where it raises ValueError).
\<close>

fun py_float :: "(pystr \<Rightarrow> real option) \<Rightarrow> json \<Rightarrow> py_exception + real" where
  "py_float float_str (JNum r) = Inr r"
| "py_float float_str (JBool b) = Inr (if b then 1 else 0)"
| "py_float float_str (JStr s) =
     (case float_str s of None \<Rightarrow> Inl ValueError | Some r \<Rightarrow> Inr r)"
| "py_float float_str JNull = Inl TypeError"
| "py_float float_str (JArr xs) = Inl TypeError"
| "py_float float_str (JObj d) = Inl TypeError"

text \<open>
  One reading of strings for the examples: plain decimal literals (an optional sign,
  digits, an optional fraction), on which the builtin \<open>float\<close> agrees.
\<close>

fun digits_val :: "pystr \<Rightarrow> nat \<Rightarrow> nat option" where
  "digits_val [] acc = Some acc"
| "digits_val (c # cs) acc =
     (if 48 \<le> c \<and> c \<le> 57 then digits_val cs (10 * acc + (c - 48)) else None)"

definition parse_unsigned :: "pystr \<Rightarrow> real option" where
  "parse_unsigned s =
     (let ip = takeWhile (\<lambda>c. c \<noteq> 46) s;
          fp = drop 1 (dropWhile (\<lambda>c. c \<noteq> 46) s)
      in if ip = [] \<and> fp = [] then None
         else (case digits_val ip 0 of
                 None \<Rightarrow> None
               | Some a \<Rightarrow>
                   (case digits_val fp 0 of
                      None \<Rightarrow> None
                    | Some b \<Rightarrow> Some (real a + real b / 10 ^ length fp))))"

definition parse_decimal :: "pystr \<Rightarrow> real option" where
  "parse_decimal s =
     (case s of
        [] \<Rightarrow> None
      | c # cs \<Rightarrow>
          if c = 45 then map_option uminus (parse_unsigned cs)
          else if c = 43 then parse_unsigned cs
          else parse_unsigned s)"

section \<open>Fetching one whale's positions\<close>

record position =
  pos_coin :: pystr
  pos_side :: pystr
  pos_size :: real
  pos_value :: real
  pos_entry_price :: real
  pos_mark_price :: real
  pos_pnl_usd :: real
  pos_pnl_pct :: real

definition WHITELISTED_TOKENS :: "pystr list" where
  "WHITELISTED_TOKENS = [u ''BTC'', u ''ETH'', u ''SOL'']"

text \<open>\<open>float(x.get(k, default))\<close>.\<close>

definition get_float ::
  "(pystr \<Rightarrow> real option) \<Rightarrow> json \<Rightarrow> pystr \<Rightarrow> json \<Rightarrow> py_exception + real" where
  "get_float float_str x k dflt = and_then (py_get x k dflt) (py_float float_str)"

text \<open>The string held by a value that passed the whitelist test.\<close>

fun the_str :: "json \<Rightarrow> pystr" where
  "the_str (JStr s) = s"
| "the_str v = []"

text \<open>The dict appended to \<open>positions\<close>, with the position value and the P&L percentage.\<close>

definition position_record :: "json \<Rightarrow> real \<Rightarrow> real \<Rightarrow> real \<Rightarrow> real \<Rightarrow> position" where
  "position_record coin sz entry_px mark_px unrealized_pnl =
     (let position_value = \<bar>sz * mark_px\<bar>;
          pnl_pct =
            (if sz > 0
             then (if entry_px > 0 then ((mark_px - entry_px) / entry_px) * 100 else 0)
             else (if entry_px > 0 then ((entry_px - mark_px) / entry_px) * 100 else 0))
      in \<lparr> pos_coin = the_str coin,
           pos_side = (if sz > 0 then u ''LONG'' else u ''SHORT''),
           pos_size = \<bar>sz\<bar>,
           pos_value = position_value,
           pos_entry_price = entry_px,
           pos_mark_price = mark_px,
           pos_pnl_usd = unrealized_pnl,
           pos_pnl_pct = pnl_pct \<rparr>)"

text \<open>
  The body of the loop over \<open>asset_positions\<close> in \<open>get_whale_positions\<close>: it raises,
  or appends nothing (\<open>None\<close>), or appends one record. \<open>process_position\<close> is the part
  under \<open>if position:\<close>.
\<close>

definition process_position ::
  "(pystr \<Rightarrow> real option) \<Rightarrow> json \<Rightarrow> py_exception + position option" where
  "process_position float_str position =
     and_then (py_get position (u ''coin'') (JStr [])) (\<lambda>coin.
       if coin \<notin> set (map JStr WHITELISTED_TOKENS) then Inr None
       else
         and_then (get_float float_str position (u ''szi'') (JNum 0)) (\<lambda>sz.
           if sz \<noteq> 0 then
             and_then (get_float float_str position (u ''entryPx'') (JNum 0)) (\<lambda>entry_px.
             and_then (get_float float_str position (u ''markPx'') (JNum entry_px)) (\<lambda>mark_px.
             and_then (get_float float_str position (u ''unrealizedPnl'') (JNum 0))
               (\<lambda>unrealized_pnl.
                 Inr (Some (position_record coin sz entry_px mark_px unrealized_pnl)))))
           else Inr None))"

definition process_asset_position ::
  "(pystr \<Rightarrow> real option) \<Rightarrow> json \<Rightarrow> py_exception + position option" where
  "process_asset_position float_str asset_position =
     and_then (py_get asset_position (u ''position'') (JObj [])) (\<lambda>position.
       if truthy position then process_position float_str position else Inr None)"

fun asset_positions_loop ::
  "(pystr \<Rightarrow> real option) \<Rightarrow> json list \<Rightarrow> position list \<Rightarrow> py_exception + position list" where
  "asset_positions_loop float_str [] positions = Inr positions"
| "asset_positions_loop float_str (asset_position # rest) positions =
     (case process_asset_position float_str asset_position of
        Inl e \<Rightarrow> Inl e
      | Inr None \<Rightarrow> asset_positions_loop float_str rest positions
      | Inr (Some p) \<Rightarrow> asset_positions_loop float_str rest (positions @ [p]))"

text \<open>
  \<open>positions.sort(key=lambda x: x['value'], reverse=True)\<close>: descending by value, and
  stable, as Python's sort is with \<open>reverse=True\<close>. This is the sort on values that are
  numbers; \<open>sort_by_value_desc_f\<close> below is the sort on floats that may be NaN.
\<close>

definition sort_by_value_desc :: "position list \<Rightarrow> position list" where
  "sort_by_value_desc positions = sort_key (\<lambda>p. - pos_value p) positions"

text \<open>The \<open>try\<close> block of \<open>get_whale_positions\<close>: what it returns, or what it raises.\<close>

definition get_whale_positions_try ::
  "(pystr \<Rightarrow> real option) \<Rightarrow> http_result \<Rightarrow> py_exception + position list" where
  "get_whale_positions_try float_str result =
     (case result of
        RequestRaises e \<Rightarrow> Inl e
      | Response status_code body \<Rightarrow>
          if status_code = 200 then
            (case body of
               None \<Rightarrow> Inl JSONDecodeError
             | Some data \<Rightarrow>
                 and_then (py_get data (u ''assetPositions'') (JArr [])) (\<lambda>asset_positions.
                 and_then (py_iter asset_positions) (\<lambda>entries.
                 and_then (asset_positions_loop float_str entries []) (\<lambda>positions.
                   Inr (sort_by_value_desc positions)))))
          else Inr [])"

text \<open>\<open>except Exception\<close>: log and return the empty list.\<close>

definition get_whale_positions ::
  "(pystr \<Rightarrow> real option) \<Rightarrow> http_result \<Rightarrow> position list" where
  "get_whale_positions float_str result =
     (case get_whale_positions_try float_str result of
        Inl e \<Rightarrow> []
      | Inr positions \<Rightarrow> positions)"

section \<open>Formatting\<close>

text \<open>\<open>str(n)\<close> for a natural number.\<close>

fun str_nat :: "nat \<Rightarrow> pystr" where
  "str_nat n = (if n < 10 then [48 + n] else str_nat (n div 10) @ [48 + n mod 10])"

declare str_nat.simps [simp del]

text \<open>Rounding to the nearest integer, ties to even, as the format specifier \<open>f\<close> rounds.\<close>

definition round_half_even :: "real \<Rightarrow> int" where
  "round_half_even x =
     (let f = \<lfloor>x\<rfloor>; r = x - of_int f
      in if r < 1 / 2 then f
         else if r > 1 / 2 then f + 1
         else if even f then f else f + 1)"

definition scaled_digits :: "nat \<Rightarrow> real \<Rightarrow> nat" where
  "scaled_digits d x = nat (round_half_even (\<bar>x\<bar> * 10 ^ d))"

definition frac_part :: "nat \<Rightarrow> nat \<Rightarrow> pystr" where
  "frac_part d n =
     (if d = 0 then []
      else (let ds = str_nat (n mod 10 ^ d)
            in u ''.'' @ replicate (d - length ds) 48 @ ds))"

fun commas_rev :: "pystr \<Rightarrow> pystr" where
  "commas_rev (a # b # c # d # rest) = a # b # c # 44 # commas_rev (d # rest)"
| "commas_rev ds = ds"

definition add_commas :: "pystr \<Rightarrow> pystr" where
  "add_commas ds = rev (commas_rev (rev ds))"

text \<open>\<open>f"{x:.df}"\<close> and \<open>f"{x:,.df}"\<close>.\<close>

definition format_f :: "nat \<Rightarrow> real \<Rightarrow> pystr" where
  "format_f d x =
     (let n = scaled_digits d x
      in (if x < 0 then u ''-'' else []) @ str_nat (n div 10 ^ d) @ frac_part d n)"

definition format_comma_f :: "nat \<Rightarrow> real \<Rightarrow> pystr" where
  "format_comma_f d x =
     (let n = scaled_digits d x
      in (if x < 0 then u ''-'' else []) @ add_commas (str_nat (n div 10 ^ d)) @ frac_part d n)"

definition format_value :: "real \<Rightarrow> pystr" where
  "format_value v =
     (if v \<ge> 1000000 then u ''$'' @ format_f 2 (v / 1000000) @ u ''M''
      else if v \<ge> 1000 then u ''$'' @ format_f 0 (v / 1000) @ u ''K''
      else u ''$'' @ format_f 0 v)"

definition format_price :: "real \<Rightarrow> pystr" where
  "format_price price =
     (if price \<ge> 1000 then u ''$'' @ format_comma_f 0 price
      else if price \<ge> 1 then u ''$'' @ format_comma_f 2 price
      else u ''$'' @ format_f 4 price)"

definition rocket :: nat where "rocket = 128640"

definition get_pnl_emoji :: "real \<Rightarrow> pystr" where
  "get_pnl_emoji pnl_pct =
     (if pnl_pct \<ge> 50 then [rocket, rocket, rocket]
      else if pnl_pct \<ge> 20 then [rocket, rocket]
      else if pnl_pct \<ge> 10 then [rocket]
      else if pnl_pct \<ge> 5 then [128200]
      else if pnl_pct > 0 then [9989]
      else if pnl_pct = 0 then [10134]
      else if pnl_pct > - 5 then [128201]
      else if pnl_pct > - 10 then [9888, 65039]
      else if pnl_pct > - 20 then [128315]
      else [128128])"

text \<open>\<open>html.escape(s)\<close> of the standard library, with its default \<open>quote=True\<close>.\<close>

definition escape_char :: "nat \<Rightarrow> pystr" where
  "escape_char c =
     (if c = 38 then u ''&amp;''
      else if c = 60 then u ''&lt;''
      else if c = 62 then u ''&gt;''
      else if c = 34 then u ''&quot;''
      else if c = 39 then u ''&#x27;''
      else [c])"

definition html_escape :: "pystr \<Rightarrow> pystr" where
  "html_escape s = concat (map escape_char s)"

section \<open>The report\<close>

record whale =
  address :: pystr
  name :: pystr

text \<open>The accumulators of \<open>get_all_whale_positions\<close>.\<close>

record report_state =
  message :: pystr
  total_whales_with_positions :: nat
  total_positions :: nat
  total_value :: real

definition header_text :: "pystr \<Rightarrow> pystr" where
  "header_text timestamp =
     u ''<b>'' @ [128011] @ u '' WHALE POSITIONS REPORT '' @ [128011] @ u ''</b>\<newline>''
     @ u ''<code>Generated: '' @ timestamp @ u ''</code>\<newline>''
     @ u ''<code>'' @ replicate 40 61 @ u ''</code>\<newline>\<newline>''"

definition whale_header_text :: "whale \<Rightarrow> real \<Rightarrow> pystr" where
  "whale_header_text w whale_total_value =
     (let coinglass_url = u ''https://www.coinglass.com/hyperliquid/'' @ address w;
          escaped_name = html_escape (name w)
      in u ''<b>'' @ [128202] @ u '' <a href='' @ [39] @ coinglass_url @ [39] @ u ''>''
           @ escaped_name @ u ''</a></b>\<newline>''
         @ u ''<code>Address: '' @ take 6 (address w) @ u ''...''
           @ drop (length (address w) - 4) (address w) @ u ''</code>\<newline>''
         @ u ''<code>Total Value: '' @ format_value whale_total_value @ u ''</code>\<newline>''
         @ u ''<code>'' @ replicate 40 45 @ u ''</code>\<newline>'')"

definition pnl_line :: "position \<Rightarrow> pystr" where
  "pnl_line pos =
     (if pos_pnl_usd pos \<ge> 0
      then u ''  P&L: <b>+'' @ format_value \<bar>pos_pnl_usd pos\<bar> @ u ''</b> ''
           @ u ''(<b>+'' @ format_f 2 \<bar>pos_pnl_pct pos\<bar> @ u ''%</b>)\<newline>''
      else u ''  P&L: <b>-'' @ format_value \<bar>pos_pnl_usd pos\<bar> @ u ''</b> ''
           @ u ''(<b>-'' @ format_f 2 \<bar>pos_pnl_pct pos\<bar> @ u ''%</b>)\<newline>'')"

definition position_text :: "position \<Rightarrow> pystr" where
  "position_text pos =
     u ''<b>'' @ pos_coin pos @ u '' '' @ pos_side pos @ u ''</b> ''
       @ get_pnl_emoji (pos_pnl_pct pos) @ u ''\<newline>''
     @ u ''  Size: '' @ format_value (pos_value pos) @ u ''\<newline>''
     @ u ''  Entry: '' @ format_price (pos_entry_price pos) @ u ''\<newline>''
     @ u ''  Mark: '' @ format_price (pos_mark_price pos) @ u ''\<newline>''
     @ pnl_line pos
     @ u ''\<newline>''"

fun positions_loop :: "position list \<Rightarrow> report_state \<Rightarrow> report_state" where
  "positions_loop [] st = st"
| "positions_loop (pos # rest) st =
     positions_loop rest
       (st\<lparr> total_positions := total_positions st + 1,
            message := message st @ position_text pos \<rparr>)"

text \<open>
  One turn of the loop over \<open>self.whales\<close>. \<open>post i a\<close> is the outcome of the request sent
  for address \<open>a\<close> in turn \<open>i\<close> (counted from 0).
\<close>

definition whale_step ::
  "(pystr \<Rightarrow> real option) \<Rightarrow> (nat \<Rightarrow> pystr \<Rightarrow> http_result) \<Rightarrow> nat \<Rightarrow> whale
     \<Rightarrow> report_state \<Rightarrow> report_state" where
  "whale_step float_str post i w st =
     (let positions = get_whale_positions float_str (post i (address w))
      in if positions = [] then st
         else (let whale_total_value = sum_list (map pos_value positions);
                   st1 = st\<lparr> total_whales_with_positions := total_whales_with_positions st + 1,
                              total_value := total_value st + whale_total_value,
                              message := message st @ whale_header_text w whale_total_value \<rparr>;
                   st2 = positions_loop positions st1
               in st2\<lparr> message := message st2 @ u ''\<newline>'' \<rparr>))"

fun whales_loop ::
  "(pystr \<Rightarrow> real option) \<Rightarrow> (nat \<Rightarrow> pystr \<Rightarrow> http_result) \<Rightarrow> nat \<Rightarrow> whale list
     \<Rightarrow> report_state \<Rightarrow> report_state" where
  "whales_loop float_str post i [] st = st"
| "whales_loop float_str post i (w # ws) st =
     whales_loop float_str post (Suc i) ws (whale_step float_str post i w st)"

definition no_positions_text :: pystr where
  "no_positions_text = u ''<i>No active BTC/ETH/SOL positions found</i>\<newline>''"

definition footer_text :: "nat \<Rightarrow> nat \<Rightarrow> nat \<Rightarrow> real \<Rightarrow> pystr" where
  "footer_text active n_whales n_positions v =
     u ''<code>'' @ replicate 40 61 @ u ''</code>\<newline>''
     @ u ''<b>'' @ [128200] @ u '' SUMMARY</b>\<newline>''
     @ u ''Active Whales: '' @ str_nat active @ u ''/'' @ str_nat n_whales @ u ''\<newline>''
     @ u ''Total Positions: '' @ str_nat n_positions @ u ''\<newline>''
     @ u ''Total Value: '' @ format_value v @ u ''\<newline>''"

definition initial_state :: "pystr \<Rightarrow> report_state" where
  "initial_state timestamp =
     \<lparr> message = header_text timestamp,
       total_whales_with_positions = 0,
       total_positions = 0,
       total_value = 0 \<rparr>"

text \<open>
  \<open>get_all_whale_positions\<close>; the clock's \<open>strftime\<close> text is the parameter \<open>timestamp\<close>.
\<close>

definition get_all_whale_positions ::
  "(pystr \<Rightarrow> real option) \<Rightarrow> (nat \<Rightarrow> pystr \<Rightarrow> http_result) \<Rightarrow> pystr \<Rightarrow> whale list
     \<Rightarrow> pystr" where
  "get_all_whale_positions float_str post timestamp whales =
     (let st = whales_loop float_str post 0 whales (initial_state timestamp)
      in if total_whales_with_positions st = 0
         then message st @ no_positions_text
         else message st
              @ footer_text (total_whales_with_positions st) (length whales)
                  (total_positions st) (total_value st))"

section \<open>Splitting a long message\<close>

text \<open>\<open>message.split('\n\n')\<close>: the separators are found left to right, without overlap.\<close>

fun py_split_nn :: "pystr \<Rightarrow> pystr list" where
  "py_split_nn [] = [[]]"
| "py_split_nn [a] = [[a]]"
| "py_split_nn (a # b # rest) =
     (if a = 10 \<and> b = 10 then [] # py_split_nn rest
      else (case py_split_nn (b # rest) of
              [] \<Rightarrow> [[a]]
            | p # ps \<Rightarrow> (a # p) # ps))"

fun split_message_loop :: "pystr list \<Rightarrow> pystr list \<Rightarrow> pystr \<Rightarrow> pystr list \<times> pystr" where
  "split_message_loop [] messages current_msg = (messages, current_msg)"
| "split_message_loop (part # parts) messages current_msg =
     (if length current_msg + length part + 2 < 4000
      then split_message_loop parts messages
             ((if current_msg \<noteq> [] then current_msg @ u ''\<newline>\<newline>'' else current_msg) @ part)
      else split_message_loop parts
             (if current_msg \<noteq> [] then messages @ [current_msg] else messages) part)"

definition split_message :: "pystr \<Rightarrow> pystr list" where
  "split_message msg =
     (case split_message_loop (py_split_nn msg) [] [] of
        (messages, current_msg) \<Rightarrow>
          if current_msg \<noteq> [] then messages @ [current_msg] else messages)"

text \<open>
  \<open>handle_message\<close>: the payloads passed to \<open>reply_text\<close>, in order. \<open>message_text\<close> is the
  incoming text after \<open>strip().lower()\<close>; \<open>positions_message\<close> is the report.
\<close>

definition handle_message :: "pystr \<Rightarrow> pystr \<Rightarrow> pystr list" where
  "handle_message message_text positions_message =
     (if message_text = u ''go''
      then (if length positions_message > 4000
            then split_message positions_message
            else [positions_message])
      else [])"

text \<open>\<open>sep.join(parts)\<close>.\<close>

fun py_join :: "pystr \<Rightarrow> pystr list \<Rightarrow> pystr" where
  "py_join sep [] = []"
| "py_join sep [p] = p"
| "py_join sep (p # q # ps) = p @ sep @ py_join sep (q # ps)"

section \<open>The fetch in float arithmetic\<close>

text \<open>
  The definitions above read floats as reals. For the order of the returned list the
  floats that are not numbers matter, so this section repeats \<open>get_whale_positions\<close>
  with them: the same statements in the same order, on values that may be an infinity or
  NaN. On finite numbers the two readings agree (lemma \<open>get_whale_positions_f_finite\<close>).
\<close>

text \<open>
  A Python float: a finite number (read as a real, without rounding), an infinity, or NaN.
  \<open>float('nan')\<close> and \<open>float('inf')\<close> return the values that are not numbers.
\<close>

datatype pyfloat = Fin real | PInf | NInf | NaN

text \<open>
  \<open>a < b\<close>, \<open>a > b\<close>, \<open>a >= b\<close> and \<open>a != b\<close> on floats: a comparison with NaN is False,
  except \<open>!=\<close>, which is True.
\<close>

fun py_lt :: "pyfloat \<Rightarrow> pyfloat \<Rightarrow> bool" where
  "py_lt NaN b = False"
| "py_lt a NaN = False"
| "py_lt (Fin x) (Fin y) = (x < y)"
| "py_lt (Fin x) PInf = True"
| "py_lt (Fin x) NInf = False"
| "py_lt PInf b = False"
| "py_lt NInf NInf = False"
| "py_lt NInf b = True"

definition py_gt :: "pyfloat \<Rightarrow> pyfloat \<Rightarrow> bool" where
  "py_gt a b = py_lt b a"

definition py_ge :: "pyfloat \<Rightarrow> pyfloat \<Rightarrow> bool" where
  "py_ge a b = (if a = NaN then False else if b = NaN then False else \<not> py_lt a b)"

definition py_ne :: "pyfloat \<Rightarrow> pyfloat \<Rightarrow> bool" where
  "py_ne a b = (if a = NaN then True else if b = NaN then True else a \<noteq> b)"

text \<open>\<open>abs\<close>, negation, and the sign used for products and quotients with an infinity.\<close>

fun py_abs :: "pyfloat \<Rightarrow> pyfloat" where
  "py_abs (Fin x) = Fin \<bar>x\<bar>"
| "py_abs PInf = PInf"
| "py_abs NInf = PInf"
| "py_abs NaN = NaN"

fun py_neg :: "pyfloat \<Rightarrow> pyfloat" where
  "py_neg (Fin x) = Fin (- x)"
| "py_neg PInf = NInf"
| "py_neg NInf = PInf"
| "py_neg NaN = NaN"

fun py_sign :: "pyfloat \<Rightarrow> int" where
  "py_sign (Fin x) = (if x > 0 then 1 else if x < 0 then - 1 else 0)"
| "py_sign PInf = 1"
| "py_sign NInf = - 1"
| "py_sign NaN = 0"

definition signed_inf :: "int \<Rightarrow> pyfloat" where
  "signed_inf s = (if s = 0 then NaN else if s > 0 then PInf else NInf)"

text \<open>
  \<open>a * b\<close>, \<open>a + b\<close>, \<open>a - b\<close>: NaN is absorbing; infinity times zero and the difference of
  two equal infinities are NaN.
\<close>

fun py_mul :: "pyfloat \<Rightarrow> pyfloat \<Rightarrow> pyfloat" where
  "py_mul NaN b = NaN"
| "py_mul a NaN = NaN"
| "py_mul (Fin x) (Fin y) = Fin (x * y)"
| "py_mul a b = signed_inf (py_sign a * py_sign b)"

fun py_add :: "pyfloat \<Rightarrow> pyfloat \<Rightarrow> pyfloat" where
  "py_add NaN b = NaN"
| "py_add a NaN = NaN"
| "py_add (Fin x) (Fin y) = Fin (x + y)"
| "py_add PInf NInf = NaN"
| "py_add NInf PInf = NaN"
| "py_add PInf b = PInf"
| "py_add NInf b = NInf"
| "py_add (Fin x) b = b"

definition py_sub :: "pyfloat \<Rightarrow> pyfloat \<Rightarrow> pyfloat" where
  "py_sub a b = py_add a (py_neg b)"

text \<open>
  \<open>a / b\<close>. Python raises ZeroDivisionError when \<open>b\<close> is zero; the source divides only by
  an entry price that is greater than 0.
\<close>

fun py_div :: "pyfloat \<Rightarrow> pyfloat \<Rightarrow> pyfloat" where
  "py_div NaN b = NaN"
| "py_div a NaN = NaN"
| "py_div (Fin x) (Fin y) = Fin (x / y)"
| "py_div (Fin x) b = Fin 0"
| "py_div a (Fin y) = signed_inf (py_sign a * py_sign (Fin y))"
| "py_div a b = NaN"

text \<open>
  \<open>float(v)\<close> and \<open>float(x.get(k, default))\<close> with a default that is a float already. The
  builtin's reading of a string is again a parameter, now into \<open>pyfloat\<close>.
\<close>

fun py_float_f :: "(pystr \<Rightarrow> pyfloat option) \<Rightarrow> json \<Rightarrow> py_exception + pyfloat" where
  "py_float_f float_str (JNum r) = Inr (Fin r)"
| "py_float_f float_str (JBool b) = Inr (Fin (if b then 1 else 0))"
| "py_float_f float_str (JStr s) =
     (case float_str s of None \<Rightarrow> Inl ValueError | Some x \<Rightarrow> Inr x)"
| "py_float_f float_str JNull = Inl TypeError"
| "py_float_f float_str (JArr xs) = Inl TypeError"
| "py_float_f float_str (JObj d) = Inl TypeError"

fun get_float_f ::
  "(pystr \<Rightarrow> pyfloat option) \<Rightarrow> json \<Rightarrow> pystr \<Rightarrow> pyfloat \<Rightarrow> py_exception + pyfloat" where
  "get_float_f float_str (JObj d) k dflt =
     (case map_of d k of None \<Rightarrow> Inr dflt | Some v \<Rightarrow> py_float_f float_str v)"
| "get_float_f float_str JNull k dflt = Inl AttributeError"
| "get_float_f float_str (JBool b) k dflt = Inl AttributeError"
| "get_float_f float_str (JNum r) k dflt = Inl AttributeError"
| "get_float_f float_str (JStr s) k dflt = Inl AttributeError"
| "get_float_f float_str (JArr xs) k dflt = Inl AttributeError"

text \<open>The loop body, the loop and the \<open>try\<close> block as above, in float arithmetic.\<close>

record position_f =
  posf_coin :: pystr
  posf_side :: pystr
  posf_size :: pyfloat
  posf_value :: pyfloat
  posf_entry_price :: pyfloat
  posf_mark_price :: pyfloat
  posf_pnl_usd :: pyfloat
  posf_pnl_pct :: pyfloat

definition position_record_f ::
  "json \<Rightarrow> pyfloat \<Rightarrow> pyfloat \<Rightarrow> pyfloat \<Rightarrow> pyfloat \<Rightarrow> position_f" where
  "position_record_f coin sz entry_px mark_px unrealized_pnl =
     (let position_value = py_abs (py_mul sz mark_px);
          pnl_pct =
            (if py_gt sz (Fin 0)
             then (if py_gt entry_px (Fin 0)
                   then py_mul (py_div (py_sub mark_px entry_px) entry_px) (Fin 100) else Fin 0)
             else (if py_gt entry_px (Fin 0)
                   then py_mul (py_div (py_sub entry_px mark_px) entry_px) (Fin 100) else Fin 0))
      in \<lparr> posf_coin = the_str coin,
           posf_side = (if py_gt sz (Fin 0) then u ''LONG'' else u ''SHORT''),
           posf_size = py_abs sz,
           posf_value = position_value,
           posf_entry_price = entry_px,
           posf_mark_price = mark_px,
           posf_pnl_usd = unrealized_pnl,
           posf_pnl_pct = pnl_pct \<rparr>)"

definition process_position_f ::
  "(pystr \<Rightarrow> pyfloat option) \<Rightarrow> json \<Rightarrow> py_exception + position_f option" where
  "process_position_f float_str position =
     and_then (py_get position (u ''coin'') (JStr [])) (\<lambda>coin.
       if coin \<notin> set (map JStr WHITELISTED_TOKENS) then Inr None
       else
         and_then (get_float_f float_str position (u ''szi'') (Fin 0)) (\<lambda>sz.
           if py_ne sz (Fin 0) then
             and_then (get_float_f float_str position (u ''entryPx'') (Fin 0)) (\<lambda>entry_px.
             and_then (get_float_f float_str position (u ''markPx'') entry_px) (\<lambda>mark_px.
             and_then (get_float_f float_str position (u ''unrealizedPnl'') (Fin 0))
               (\<lambda>unrealized_pnl.
                 Inr (Some (position_record_f coin sz entry_px mark_px unrealized_pnl)))))
           else Inr None))"

definition process_asset_position_f ::
  "(pystr \<Rightarrow> pyfloat option) \<Rightarrow> json \<Rightarrow> py_exception + position_f option" where
  "process_asset_position_f float_str asset_position =
     and_then (py_get asset_position (u ''position'') (JObj [])) (\<lambda>position.
       if truthy position then process_position_f float_str position else Inr None)"

fun asset_positions_loop_f ::
  "(pystr \<Rightarrow> pyfloat option) \<Rightarrow> json list \<Rightarrow> position_f list
     \<Rightarrow> py_exception + position_f list" where
  "asset_positions_loop_f float_str [] positions = Inr positions"
| "asset_positions_loop_f float_str (asset_position # rest) positions =
     (case process_asset_position_f float_str asset_position of
        Inl e \<Rightarrow> Inl e
      | Inr None \<Rightarrow> asset_positions_loop_f float_str rest positions
      | Inr (Some p) \<Rightarrow> asset_positions_loop_f float_str rest (positions @ [p]))"

text \<open>
  \<open>positions.sort(key=lambda x: x['value'], reverse=True)\<close> as \<open>list.sort\<close> does it: the
  list is reversed, sorted ascending and stably with only \<open><\<close> on the keys, and reversed
  again. The ascending sort is written as an insertion sort; on keys without NaN every
  stable sort returns the same list. With a NaN among the keys the order that
  \<open>list.sort\<close> leaves depends on its algorithm: what is proved about such lists below
  holds for every order of the records.
\<close>

fun insort_value_f :: "position_f \<Rightarrow> position_f list \<Rightarrow> position_f list" where
  "insort_value_f x [] = [x]"
| "insort_value_f x (y # ys) =
     (if py_lt (posf_value y) (posf_value x) then y # insort_value_f x ys else x # y # ys)"

definition sort_by_value_desc_f :: "position_f list \<Rightarrow> position_f list" where
  "sort_by_value_desc_f positions = rev (foldr insort_value_f (rev positions) [])"

definition get_whale_positions_try_f ::
  "(pystr \<Rightarrow> pyfloat option) \<Rightarrow> http_result \<Rightarrow> py_exception + position_f list" where
  "get_whale_positions_try_f float_str result =
     (case result of
        RequestRaises e \<Rightarrow> Inl e
      | Response status_code body \<Rightarrow>
          if status_code = 200 then
            (case body of
               None \<Rightarrow> Inl JSONDecodeError
             | Some data \<Rightarrow>
                 and_then (py_get data (u ''assetPositions'') (JArr [])) (\<lambda>asset_positions.
                 and_then (py_iter asset_positions) (\<lambda>entries.
                 and_then (asset_positions_loop_f float_str entries []) (\<lambda>positions.
                   Inr (sort_by_value_desc_f positions)))))
          else Inr [])"

definition get_whale_positions_f ::
  "(pystr \<Rightarrow> pyfloat option) \<Rightarrow> http_result \<Rightarrow> position_f list" where
  "get_whale_positions_f float_str result =
     (case get_whale_positions_try_f float_str result of
        Inl e \<Rightarrow> []
      | Inr positions \<Rightarrow> positions)"

text \<open>The record the loop body appends for an entry, if it appends one.\<close>

definition entry_record_f :: "(pystr \<Rightarrow> pyfloat option) \<Rightarrow> json \<Rightarrow> position_f option" where
  "entry_record_f float_str e =
     (case process_asset_position_f float_str e of Inl err \<Rightarrow> None | Inr r \<Rightarrow> r)"

section \<open>Notions used in the statements\<close>

text \<open>
  What an entry of \<open>assetPositions\<close> holds, read the way the loop body reads it: the
  value under \<open>position\<close>, its coin, and its signed size (0 where there is none to read).
\<close>

definition raw_position :: "json \<Rightarrow> json" where
  "raw_position e =
     (case py_get e (u ''position'') (JObj []) of Inl err \<Rightarrow> JObj [] | Inr v \<Rightarrow> v)"

definition raw_coin :: "json \<Rightarrow> json" where
  "raw_coin e =
     (case py_get (raw_position e) (u ''coin'') (JStr []) of Inl err \<Rightarrow> JStr [] | Inr v \<Rightarrow> v)"

definition raw_szi :: "(pystr \<Rightarrow> real option) \<Rightarrow> json \<Rightarrow> real" where
  "raw_szi float_str e =
     (case get_float float_str (raw_position e) (u ''szi'') (JNum 0) of
        Inl err \<Rightarrow> 0
      | Inr x \<Rightarrow> x)"

definition qualifies :: "(pystr \<Rightarrow> real option) \<Rightarrow> json \<Rightarrow> bool" where
  "qualifies float_str e =
     (raw_coin e \<in> set (map JStr WHITELISTED_TOKENS) \<and> raw_szi float_str e \<noteq> 0)"

text \<open>The entries the loop of \<open>get_whale_positions\<close> runs over.\<close>

definition response_entries :: "json \<Rightarrow> json list" where
  "response_entries data =
     (case and_then (py_get data (u ''assetPositions'') (JArr [])) py_iter of
        Inl e \<Rightarrow> []
      | Inr es \<Rightarrow> es)"

text \<open>The record the loop body appends for an entry, if it appends one.\<close>

definition entry_record :: "(pystr \<Rightarrow> real option) \<Rightarrow> json \<Rightarrow> position option" where
  "entry_record float_str e =
     (case process_asset_position float_str e of Inl err \<Rightarrow> None | Inr r \<Rightarrow> r)"

text \<open>
  An entry and a response body of the shape the upstream sends, and the entries of the
  examples: numbers are sent as strings.
\<close>

definition raw_entry :: "pystr \<Rightarrow> json \<Rightarrow> json \<Rightarrow> json \<Rightarrow> json \<Rightarrow> json" where
  "raw_entry coin szi entry_px mark_px unrealized_pnl =
     JObj [(u ''position'',
            JObj [(u ''coin'', JStr coin), (u ''szi'', szi), (u ''entryPx'', entry_px),
                  (u ''markPx'', mark_px), (u ''unrealizedPnl'', unrealized_pnl)])]"

definition response_body :: "json list \<Rightarrow> json" where
  "response_body entries = JObj [(u ''assetPositions'', JArr entries)]"

definition entry_long :: json where
  "entry_long = raw_entry (u ''BTC'') (JStr (u ''2'')) (JStr (u ''100'')) (JStr (u ''150''))
                  (JStr (u ''12.5''))"

definition entry_short :: json where
  "entry_short = raw_entry (u ''ETH'') (JStr (u ''-2'')) (JStr (u ''100'')) (JStr (u ''150''))
                   (JStr (u ''10''))"

definition entry_no_entry_px :: json where
  "entry_no_entry_px = raw_entry (u ''SOL'') (JStr (u ''2'')) (JStr (u ''0'')) (JStr (u ''150''))
                   (JStr (u ''10''))"

definition entry_doge :: json where
  "entry_doge = raw_entry (u ''DOGE'') (JStr (u ''2'')) (JStr (u ''100'')) (JStr (u ''150''))
                  (JStr (u ''10''))"

definition entry_null_mark :: json where
  "entry_null_mark = raw_entry (u ''ETH'') (JStr (u ''2'')) (JStr (u ''100'')) JNull
                       (JStr (u ''10''))"

text \<open>
  What the loop of \<open>get_all_whale_positions\<close> fetches: each configured whale with its list
  of positions, in order; the whales that are not skipped; the value of a whale; and the
  text one whale adds to the message.
\<close>

fun fetched ::
  "(pystr \<Rightarrow> real option) \<Rightarrow> (nat \<Rightarrow> pystr \<Rightarrow> http_result) \<Rightarrow> nat \<Rightarrow> whale list
     \<Rightarrow> (whale \<times> position list) list" where
  "fetched float_str post i [] = []"
| "fetched float_str post i (w # ws) =
     (w, get_whale_positions float_str (post i (address w))) # fetched float_str post (Suc i) ws"

definition included ::
  "(pystr \<Rightarrow> real option) \<Rightarrow> (nat \<Rightarrow> pystr \<Rightarrow> http_result) \<Rightarrow> whale list
     \<Rightarrow> (whale \<times> position list) list" where
  "included float_str post whales =
     filter (\<lambda>(w, positions). positions \<noteq> []) (fetched float_str post 0 whales)"

definition whale_value :: "position list \<Rightarrow> real" where
  "whale_value positions = sum_list (map pos_value positions)"

definition whale_block_text :: "whale \<Rightarrow> position list \<Rightarrow> pystr" where
  "whale_block_text w positions =
     whale_header_text w (whale_value positions)
     @ concat (map position_text positions)
     @ u ''\<newline>''"

text \<open>Examples: a whale, a timestamp, an upstream that answers 500, an entry.\<close>

definition example_whale :: whale where
  "example_whale = \<lparr> address = u ''0x1234567890abcdef1234567890abcdef12345678'',
                     name = u ''<script>'' \<rparr>"

definition example_timestamp :: pystr where
  "example_timestamp = u ''2026-01-01 00:00:00 UTC''"

definition post_status_500 :: "nat \<Rightarrow> pystr \<Rightarrow> http_result" where
  "post_status_500 i a = Response 500 None"

definition entry_mixed_signs :: json where
  "entry_mixed_signs = raw_entry (u ''BTC'') (JStr (u ''2'')) (JStr (u ''100'')) (JStr (u ''50''))
                         (JStr (u ''10''))"

text \<open>The text of a position without the double newline that ends it.\<close>

definition position_core :: "position \<Rightarrow> pystr" where
  "position_core pos = take (length (position_text pos) - 2) (position_text pos)"

text \<open>
  Nine configured whales, an upstream that answers every request with a BTC and an ETH
  position, and the two records it gives.
\<close>

definition numbered_whale :: "nat \<Rightarrow> whale" where
  "numbered_whale k =
     \<lparr> address = u ''0x1234567890abcdef1234567890abcdef1234567'' @ str_nat k,
       name = u ''Whale '' @ str_nat k \<rparr>"

definition nine_whales :: "whale list" where
  "nine_whales = map numbered_whale [1, 2, 3, 4, 5, 6, 7, 8, 9]"

definition post_two_positions :: "nat \<Rightarrow> pystr \<Rightarrow> http_result" where
  "post_two_positions i a = Response 200 (Some (response_body [entry_long, entry_short]))"

definition position_long :: position where
  "position_long = position_record (JStr (u ''BTC'')) 2 100 150 (25 / 2)"

definition position_short :: position where
  "position_short = position_record (JStr (u ''ETH'')) (- 2) 100 150 10"

text \<open>
  The parts of the report of the nine whales between double newlines: the header without
  its last two newlines, the header of whale \<open>k\<close> with its first position, and the footer
  behind the newline that ends the last block.
\<close>

definition header_core :: "pystr \<Rightarrow> pystr" where
  "header_core ts = take (length (header_text ts) - 2) (header_text ts)"

definition block_head :: "nat \<Rightarrow> pystr" where
  "block_head k = whale_header_text (numbered_whale k) 600 @ position_core position_long"

definition last_part :: pystr where
  "last_part = u ''\<newline>'' @ footer_text 9 9 18 5400"

text \<open>
  The reading of strings for the examples in float arithmetic, and entries whose values
  are 1, NaN, 2 and 4000.
\<close>

definition parse_float :: "pystr \<Rightarrow> pyfloat option" where
  "parse_float s =
     (if s = u ''nan'' then Some NaN
      else if s = u ''inf'' then Some PInf
      else if s = u ''-inf'' then Some NInf
      else map_option Fin (parse_decimal s))"

definition entry_value_1 :: json where
  "entry_value_1 = raw_entry (u ''BTC'') (JStr (u ''1'')) (JStr (u ''100'')) (JStr (u ''1''))
                     (JStr (u ''0''))"

definition entry_value_nan :: json where
  "entry_value_nan = raw_entry (u ''ETH'') (JStr (u ''nan'')) (JStr (u ''100'')) (JStr (u ''1''))
                       (JStr (u ''0''))"

definition entry_value_2 :: json where
  "entry_value_2 = raw_entry (u ''SOL'') (JStr (u ''2'')) (JStr (u ''100'')) (JStr (u ''1''))
                     (JStr (u ''0''))"

definition entry_value_4000 :: json where
  "entry_value_4000 = raw_entry (u ''ETH'') (JStr (u ''2'')) (JStr (u ''100'')) (JStr (u ''2000''))
                        (JStr (u ''0''))"

text \<open>
  A record of real numbers as a record of floats, and a reading of strings that returns
  finite numbers only.
\<close>

definition embed_position :: "position \<Rightarrow> position_f" where
  "embed_position p =
     \<lparr> posf_coin = pos_coin p,
       posf_side = pos_side p,
       posf_size = Fin (pos_size p),
       posf_value = Fin (pos_value p),
       posf_entry_price = Fin (pos_entry_price p),
       posf_mark_price = Fin (pos_mark_price p),
       posf_pnl_usd = Fin (pos_pnl_usd p),
       posf_pnl_pct = Fin (pos_pnl_pct p) \<rparr>"

definition finite_float_str :: "(pystr \<Rightarrow> real option) \<Rightarrow> pystr \<Rightarrow> pyfloat option" where
  "finite_float_str float_str s = map_option Fin (float_str s)"

text \<open>The last step of \<open>split_message\<close>, on the state the loop ends in.\<close>

definition finish :: "pystr list \<times> pystr \<Rightarrow> pystr list" where
  "finish r =
     (case r of (messages, current_msg) \<Rightarrow>
        if current_msg \<noteq> [] then messages @ [current_msg] else messages)"

text \<open>
  \<open>no_nn s\<close>: no two adjacent newlines in \<open>s\<close>. \<open>nn_free s\<close>: moreover \<open>s\<close> does not end with
  a newline, so that a separator put after \<open>s\<close> is found where it was put.
\<close>

fun no_nn :: "pystr \<Rightarrow> bool" where
  "no_nn [] = True"
| "no_nn [a] = True"
| "no_nn (a # b # rest) = (if a = 10 \<and> b = 10 then False else no_nn (b # rest))"

definition nn_free :: "pystr \<Rightarrow> bool" where
  "nn_free s = no_nn (s @ [10])"

section \<open>Splitting and joining\<close>

lemma u_nn: "u ''\<newline>\<newline>'' = [10, 10]"
  by (simp add: u_def)

lemma py_split_nn_not_Nil: "py_split_nn s \<noteq> []"
  by (induction s rule: py_split_nn.induct) (auto split: list.splits)

lemma py_join_Cons: "ps \<noteq> [] \<Longrightarrow> py_join sep (p # ps) = p @ sep @ py_join sep ps"
  by (cases ps) auto

lemma py_join_push: "py_join sep ((a # p) # ps) = a # py_join sep (p # ps)"
  by (cases ps) auto

lemma py_join_append:
  "xs \<noteq> [] \<Longrightarrow> ys \<noteq> [] \<Longrightarrow> py_join sep (xs @ ys) = py_join sep xs @ sep @ py_join sep ys"
proof (induction xs)
  case Nil
  then show ?case by simp
next
  case (Cons x xs)
  show ?case
  proof (cases "xs = []")
    case True
    with Cons.prems show ?thesis by (simp add: py_join_Cons)
  next
    case False
    with Cons show ?thesis by (simp add: py_join_Cons)
  qed
qed

lemma py_join_split_nn: "py_join [10, 10] (py_split_nn s) = s"
proof (induction s rule: py_split_nn.induct)
  case 1
  show ?case by simp
next
  case (2 a)
  show ?case by simp
next
  case (3 a b rest)
  show ?case
  proof (cases "a = 10 \<and> b = 10")
    case True
    with 3 show ?thesis by (simp add: py_join_Cons py_split_nn_not_Nil)
  next
    case False
    obtain p ps where ps: "py_split_nn (b # rest) = p # ps"
      using py_split_nn_not_Nil [of "b # rest"] by (cases "py_split_nn (b # rest)") auto
    with False 3 show ?thesis by (auto simp: py_join_push)
  qed
qed

lemma py_join_merge:
  "py_join [10, 10] (ms @ (c @ 10 # 10 # p) # ps) = py_join [10, 10] (ms @ c # p # ps)"
  by (cases "ms = []"; cases "ps = []") (simp_all add: py_join_append py_join_Cons)

lemma split_message_loop_join:
  "\<forall>p \<in> set parts. p \<noteq> [] \<Longrightarrow> cur \<noteq> [] \<Longrightarrow>
   py_join [10, 10] (finish (split_message_loop parts ms cur)) = py_join [10, 10] (ms @ cur # parts)"
proof (induction parts arbitrary: ms cur)
  case Nil
  then show ?case by (simp add: finish_def)
next
  case (Cons part parts)
  then show ?case
    by (simp add: u_nn py_join_merge)
qed

lemma split_no_nn: "no_nn s \<Longrightarrow> py_split_nn s = [s]"
  by (induction s rule: py_split_nn.induct) (auto split: if_splits)

lemma split_nn_free:
  "nn_free s \<Longrightarrow> py_split_nn (s @ 10 # 10 # rest) = s # py_split_nn rest"
  unfolding nn_free_def
proof (induction s rule: no_nn.induct)
  case 1
  show ?case by simp
next
  case (2 a)
  then show ?case by (auto split: if_splits)
next
  case (3 a b r)
  then show ?case by (auto split: if_splits)
qed

lemma no_nn_no_newline: "10 \<notin> set s \<Longrightarrow> no_nn s"
  by (induction s rule: no_nn.induct) auto

lemma no_nn_append:
  "no_nn a \<Longrightarrow> no_nn b \<Longrightarrow> (a = [] \<or> b = [] \<or> last a \<noteq> 10 \<or> hd b \<noteq> 10) \<Longrightarrow> no_nn (a @ b)"
proof (induction a rule: no_nn.induct)
  case 1
  then show ?case by simp
next
  case (2 v)
  then show ?case by (cases b) (auto split: if_splits)
next
  case (3 x y r)
  then show ?case by (auto split: if_splits)
qed

lemma nn_free_no_newline: "10 \<notin> set s \<Longrightarrow> nn_free s"
proof -
  assume a: "10 \<notin> set s"
  have "s = [] \<or> last s \<noteq> 10"
  proof (cases "s = []")
    case True
    then show ?thesis by simp
  next
    case False
    then have "last s \<in> set s" by (rule last_in_set)
    with a show ?thesis by metis
  qed
  then show ?thesis
    unfolding nn_free_def
    by (intro no_nn_append) (auto simp: no_nn_no_newline a)
qed

text \<open>
  The payloads keep the bound of 4000 characters when every segment does; a segment
  longer than that is a payload of its own, whole.
\<close>

lemma split_message_loop_bound:
  "\<forall>p \<in> set parts. length p \<le> 4000 \<Longrightarrow> length cur \<le> 4000 \<Longrightarrow>
   \<forall>m \<in> set ms. length m \<le> 4000 \<Longrightarrow>
   \<forall>m \<in> set (finish (split_message_loop parts ms cur)). length m \<le> 4000"
proof (induction parts arbitrary: ms cur)
  case Nil
  then show ?case by (simp add: finish_def)
next
  case (Cons part parts)
  show ?case
  proof (cases "length cur + length part + 2 < 4000")
    case True
    have "length ((if cur \<noteq> [] then cur @ u ''\<newline>\<newline>'' else cur) @ part) \<le> 4000"
      using True by (simp add: u_nn)
    from Cons.IH [OF _ this Cons.prems(3)] Cons.prems(1) True show ?thesis by simp
  next
    case False
    have "\<forall>m \<in> set (if cur \<noteq> [] then ms @ [cur] else ms). length m \<le> 4000"
      using Cons.prems(2,3) by simp
    from Cons.IH [OF _ _ this, of part] Cons.prems(1) False show ?thesis by simp
  qed
qed

lemma split_message_bound:
  "\<forall>p \<in> set (py_split_nn msg). length p \<le> 4000 \<Longrightarrow>
   \<forall>m \<in> set (split_message msg). length m \<le> 4000"
  using split_message_loop_bound [of "py_split_nn msg" "[]" "[]"]
  by (simp add: split_message_def finish_def)

lemma long_segment_parts: "py_split_nn (replicate 4001 97) = [replicate 4001 97]"
  by (simp add: split_no_nn no_nn_no_newline)

lemma long_segment_split: "split_message (replicate 4001 97) = [replicate 4001 97]"
  by (simp add: split_message_def long_segment_parts)

lemma two_blocks_parts:
  "py_split_nn (replicate 3000 97 @ u ''\<newline>\<newline>'' @ replicate 3000 98)
     = [replicate 3000 97, replicate 3000 98]"
  by (simp add: u_def split_nn_free split_no_nn nn_free_no_newline no_nn_no_newline)

lemma two_blocks_split:
  "split_message (replicate 3000 97 @ u ''\<newline>\<newline>'' @ replicate 3000 98)
     = [replicate 3000 97, replicate 3000 98]"
  by (simp add: split_message_def two_blocks_parts)

text \<open>
  C10. For every string whose segments between double newlines are all non-empty,
  joining the payloads of \<open>split_message\<close> with a double newline gives the string back:
  no segment is lost, duplicated or reordered.
\<close>

theorem split_message_join:
  assumes "\<forall>p \<in> set (py_split_nn msg). p \<noteq> []"
  shows "py_join (u ''\<newline>\<newline>'') (split_message msg) = msg"
proof -
  obtain p ps where ps: "py_split_nn msg = p # ps"
    using py_split_nn_not_Nil [of msg] by (cases "py_split_nn msg") auto
  with assms have ne: "p \<noteq> []" "\<forall>q \<in> set ps. q \<noteq> []" by auto
  have "split_message msg = finish (split_message_loop ps [] p)"
    by (simp add: split_message_def finish_def ps)
  then have "py_join [10, 10] (split_message msg) = py_join [10, 10] (p # ps)"
    using split_message_loop_join [OF ne(2) ne(1), of "[]"] by simp
  then show ?thesis
    using py_join_split_nn [of msg] by (simp add: ps u_nn)
qed

text \<open>A message of two blocks of 3000 characters: two payloads, which join to the message.\<close>

theorem split_message_join_witness:
  "list_all (\<lambda>p. p \<noteq> []) (py_split_nn (replicate 3000 97 @ u ''\<newline>\<newline>'' @ replicate 3000 98))
   \<and> length (split_message (replicate 3000 97 @ u ''\<newline>\<newline>'' @ replicate 3000 98)) = 2
   \<and> py_join (u ''\<newline>\<newline>'')
        (split_message (replicate 3000 97 @ u ''\<newline>\<newline>'' @ replicate 3000 98))
      = replicate 3000 97 @ u ''\<newline>\<newline>'' @ replicate 3000 98"
proof -
  have h: "\<forall>p \<in> set (py_split_nn (replicate 3000 97 @ u ''\<newline>\<newline>'' @ replicate 3000 98)). p \<noteq> []"
    by (simp add: two_blocks_parts)
  have l: "length (split_message (replicate 3000 97 @ u ''\<newline>\<newline>'' @ replicate 3000 98)) = 2"
    by (simp add: two_blocks_split)
  from h l split_message_join [OF h] show ?thesis
    unfolding list_all_iff by blast
qed

section \<open>Properties of one whale's positions\<close>

lemma and_then_Inr_iff: "and_then m f = Inr y \<longleftrightarrow> (\<exists>x. m = Inr x \<and> f x = Inr y)"
  by (cases m) auto

lemma long_neq_short: "u ''LONG'' \<noteq> u ''SHORT''"
  by (simp add: u_def)

lemma empty_not_whitelisted: "JStr [] \<notin> set (map JStr WHITELISTED_TOKENS)"
  by (simp add: WHITELISTED_TOKENS_def u_def)

lemma whitelisted_the_str: "c \<in> set (map JStr WHITELISTED_TOKENS) \<Longrightarrow> JStr (the_str c) = c"
  by auto

lemma process_position_None:
  assumes "process_position fs position = Inr None"
  shows "(case py_get position (u ''coin'') (JStr []) of Inl err \<Rightarrow> JStr [] | Inr v \<Rightarrow> v)
           \<notin> set (map JStr WHITELISTED_TOKENS)
         \<or> (case get_float fs position (u ''szi'') (JNum 0) of Inl err \<Rightarrow> 0 | Inr x \<Rightarrow> x) = 0"
  using assms
  by (auto simp: process_position_def and_then_Inr_iff split: if_splits)

lemma process_position_Some:
  assumes "process_position fs position = Inr (Some p)"
  shows "\<exists>coin sz entry_px mark_px upnl.
           py_get position (u ''coin'') (JStr []) = Inr coin
         \<and> coin \<in> set (map JStr WHITELISTED_TOKENS)
         \<and> get_float fs position (u ''szi'') (JNum 0) = Inr sz \<and> sz \<noteq> 0
         \<and> p = position_record coin sz entry_px mark_px upnl"
  using assms
  by (auto simp: process_position_def and_then_Inr_iff split: if_splits)

lemma process_None:
  assumes "process_asset_position fs e = Inr None"
  shows "\<not> qualifies fs e"
proof -
  from assms obtain position where pos: "py_get e (u ''position'') (JObj []) = Inr position"
    and r: "(if truthy position then process_position fs position else Inr None) = Inr None"
    by (auto simp: process_asset_position_def and_then_Inr_iff)
  have rp: "raw_position e = position" by (simp add: raw_position_def pos)
  show ?thesis
  proof (cases "truthy position")
    case True
    with r have "process_position fs position = Inr None" by simp
    from process_position_None [OF this] show ?thesis
      by (auto simp: qualifies_def raw_coin_def raw_szi_def rp)
  next
    case False
    then have "py_get position (u ''coin'') (JStr []) = Inl AttributeError
               \<or> position = JObj []"
      by (cases position) auto
    then show ?thesis
      using empty_not_whitelisted
      by (auto simp: qualifies_def raw_coin_def rp dict_get_def)
  qed
qed

lemma process_Some:
  assumes "process_asset_position fs e = Inr (Some p)"
  shows "qualifies fs e \<and> JStr (pos_coin p) = raw_coin e
     \<and> (pos_side p = u ''LONG'' \<longleftrightarrow> raw_szi fs e > 0)
     \<and> (pos_side p = u ''SHORT'' \<longleftrightarrow> \<not> raw_szi fs e > 0)
     \<and> pos_size p = \<bar>raw_szi fs e\<bar>"
proof -
  from assms obtain position where pos: "py_get e (u ''position'') (JObj []) = Inr position"
    and r: "process_position fs position = Inr (Some p)"
    by (auto simp: process_asset_position_def and_then_Inr_iff split: if_splits)
  have rp: "raw_position e = position" by (simp add: raw_position_def pos)
  from process_position_Some [OF r] obtain coin sz entry_px mark_px upnl where
    c: "py_get position (u ''coin'') (JStr []) = Inr coin"
       "coin \<in> set (map JStr WHITELISTED_TOKENS)"
       "get_float fs position (u ''szi'') (JNum 0) = Inr sz" "sz \<noteq> 0"
       "p = position_record coin sz entry_px mark_px upnl"
    by blast
  have rc: "raw_coin e = coin" by (simp add: raw_coin_def rp c)
  have rs: "raw_szi fs e = sz" by (simp add: raw_szi_def rp c)
  have "JStr (pos_coin p) = coin"
    using whitelisted_the_str [OF c(2)] by (simp add: c(5) position_record_def)
  then show ?thesis
    using c(2,4) long_neq_short
    by (simp add: qualifies_def rc rs c(5) position_record_def)
qed

lemma map_filter_Cons_None: "f x = None \<Longrightarrow> List.map_filter f (x # xs) = List.map_filter f xs"
  by (simp add: List.map_filter_def)

lemma map_filter_Cons_Some: "f x = Some y \<Longrightarrow> List.map_filter f (x # xs) = y # List.map_filter f xs"
  by (simp add: List.map_filter_def)

lemma loop_Inr:
  "asset_positions_loop fs es acc = Inr ps \<Longrightarrow>
     ps = acc @ List.map_filter (entry_record fs) es
     \<and> (\<forall>e \<in> set es. process_asset_position fs e = Inr (entry_record fs e))"
proof (induction es arbitrary: acc)
  case Nil
  then show ?case by (simp add: List.map_filter_def)
next
  case (Cons e es)
  show ?case
  proof (cases "process_asset_position fs e")
    case (Inl err)
    with Cons.prems show ?thesis by simp
  next
    case (Inr r)
    show ?thesis
    proof (cases r)
      case None
      with Inr have er: "entry_record fs e = None" by (simp add: entry_record_def)
      from Cons.prems Inr None have "asset_positions_loop fs es acc = Inr ps" by simp
      from Cons.IH [OF this] show ?thesis
        using Inr None er by (simp add: map_filter_Cons_None)
    next
      case (Some p)
      with Inr have er: "entry_record fs e = Some p" by (simp add: entry_record_def)
      from Cons.prems Inr Some have "asset_positions_loop fs es (acc @ [p]) = Inr ps" by simp
      from Cons.IH [OF this] show ?thesis
        using Inr Some er by (simp add: map_filter_Cons_Some)
    qed
  qed
qed

lemma try_Inr:
  assumes "get_whale_positions_try fs (Response 200 (Some data)) = Inr ps"
  shows "ps = sort_by_value_desc (List.map_filter (entry_record fs) (response_entries data))
         \<and> (\<forall>e \<in> set (response_entries data).
               process_asset_position fs e = Inr (entry_record fs e))"
proof -
  from assms obtain aps es positions where
    a: "py_get data (u ''assetPositions'') (JArr []) = Inr aps"
    and b: "py_iter aps = Inr es"
    and c: "asset_positions_loop fs es [] = Inr positions"
    and d: "ps = sort_by_value_desc positions"
    by (auto simp: get_whale_positions_try_def and_then_Inr_iff)
  have re: "response_entries data = es" by (simp add: response_entries_def a b)
  from loop_Inr [OF c] d re show ?thesis by simp
qed

text \<open>
  C2, as amended. When the response has status 200 and nothing raises while it is
  processed, the returned list is the list of the records of the entries, sorted by value;
  an entry has a record exactly when its coin is in the whitelist and its signed size is
  not zero; the record's side is LONG exactly when the signed size is positive, SHORT
  otherwise, and its size is the absolute value of the signed size.
\<close>

theorem records_of_qualifying_entries:
  assumes "get_whale_positions_try fs (Response 200 (Some data)) = Inr ps"
  shows "get_whale_positions fs (Response 200 (Some data))
           = sort_by_value_desc (List.map_filter (entry_record fs) (response_entries data))
       \<and> (\<forall>e \<in> set (response_entries data).
             (entry_record fs e \<noteq> None \<longleftrightarrow> qualifies fs e)
           \<and> (\<forall>p. entry_record fs e = Some p \<longrightarrow>
                  JStr (pos_coin p) = raw_coin e
                \<and> (pos_side p = u ''LONG'' \<longleftrightarrow> raw_szi fs e > 0)
                \<and> (pos_side p = u ''SHORT'' \<longleftrightarrow> \<not> raw_szi fs e > 0)
                \<and> pos_size p = \<bar>raw_szi fs e\<bar>))"
proof -
  note t = try_Inr [OF assms]
  have 1: "get_whale_positions fs (Response 200 (Some data))
           = sort_by_value_desc (List.map_filter (entry_record fs) (response_entries data))"
    using t assms by (simp add: get_whale_positions_def)
  have 2: "(entry_record fs e \<noteq> None \<longleftrightarrow> qualifies fs e)
           \<and> (\<forall>p. entry_record fs e = Some p \<longrightarrow>
                  JStr (pos_coin p) = raw_coin e
                \<and> (pos_side p = u ''LONG'' \<longleftrightarrow> raw_szi fs e > 0)
                \<and> (pos_side p = u ''SHORT'' \<longleftrightarrow> \<not> raw_szi fs e > 0)
                \<and> pos_size p = \<bar>raw_szi fs e\<bar>)"
    if e: "e \<in> set (response_entries data)" for e
  proof -
    from t e have pr: "process_asset_position fs e = Inr (entry_record fs e)" by blast
    show ?thesis
    proof (cases "entry_record fs e")
      case None
      with pr process_None [of fs e] show ?thesis by simp
    next
      case (Some p)
      with pr process_Some [of fs e p] show ?thesis by simp
    qed
  qed
  from 1 2 show ?thesis by blast
qed

text \<open>
  C1. \<open>get_whale_positions\<close> returns a list in every case: the empty list when the
  request times out or the connection fails, when the status is not 200, and when
  anything raises inside the \<open>try\<close> block; what the block returns otherwise.
\<close>

theorem get_whale_positions_never_raises:
  "get_whale_positions fs (RequestRaises Timeout) = []
   \<and> get_whale_positions fs (RequestRaises ConnectionError) = []
   \<and> (status \<noteq> 200 \<longrightarrow> get_whale_positions fs (Response status body) = [])
   \<and> (get_whale_positions_try fs r = Inl e \<longrightarrow> get_whale_positions fs r = [])
   \<and> (get_whale_positions_try fs r = Inr ps \<longrightarrow> get_whale_positions fs r = ps)"
  by (simp add: get_whale_positions_def get_whale_positions_try_def)

lemma in_map_filter: "y \<in> set (List.map_filter f xs) \<longleftrightarrow> (\<exists>x \<in> set xs. f x = Some y)"
  by (induction xs) (auto split: option.splits)

lemma process_Some_record:
  assumes "process_asset_position fs e = Inr (Some p)"
  shows "\<exists>coin sz entry_px mark_px upnl. sz \<noteq> 0 \<and> p = position_record coin sz entry_px mark_px upnl"
proof -
  from assms obtain position where "process_position fs position = Inr (Some p)"
    by (auto simp: process_asset_position_def and_then_Inr_iff split: if_splits)
  from process_position_Some [OF this] show ?thesis by blast
qed

lemma try_Inr_any:
  assumes "get_whale_positions_try fs r = Inr ps"
  shows "ps = [] \<or> (\<exists>es. ps = sort_by_value_desc (List.map_filter (entry_record fs) es)
                     \<and> (\<forall>e \<in> set es. process_asset_position fs e = Inr (entry_record fs e)))"
proof (cases r)
  case (RequestRaises e)
  with assms show ?thesis by (simp add: get_whale_positions_try_def)
next
  case (Response status body)
  show ?thesis
  proof (cases "status = 200")
    case False
    with assms Response show ?thesis by (simp add: get_whale_positions_try_def)
  next
    case True
    show ?thesis
    proof (cases body)
      case None
      with assms Response True show ?thesis by (simp add: get_whale_positions_try_def)
    next
      case (Some data)
      with assms Response True try_Inr [of fs data ps] show ?thesis by blast
    qed
  qed
qed

lemma member_is_record:
  assumes "p \<in> set (get_whale_positions fs r)"
  shows "\<exists>coin sz entry_px mark_px upnl. sz \<noteq> 0 \<and> p = position_record coin sz entry_px mark_px upnl"
proof (cases "get_whale_positions_try fs r")
  case (Inl e)
  with assms show ?thesis by (simp add: get_whale_positions_def)
next
  case (Inr ps)
  with assms have m: "p \<in> set ps" by (simp add: get_whale_positions_def)
  from try_Inr_any [OF Inr] m obtain es where
    "p \<in> set (List.map_filter (entry_record fs) es)"
    "\<forall>e \<in> set es. process_asset_position fs e = Inr (entry_record fs e)"
    by (auto simp: sort_by_value_desc_def)
  then obtain e where "process_asset_position fs e = Inr (Some p)"
    by (auto simp: in_map_filter)
  from process_Some_record [OF this] show ?thesis .
qed

lemma response_body_entries: "response_entries (response_body es) = es"
  by (simp add: response_entries_def response_body_def dict_get_def)

lemma process_raw_entry:
  assumes "c \<in> set WHITELISTED_TOKENS" "py_float fs szi = Inr sz" "sz \<noteq> 0"
    "py_float fs epx = Inr e" "py_float fs mpx = Inr m" "py_float fs up = Inr x"
  shows "process_asset_position fs (raw_entry c szi epx mpx up)
           = Inr (Some (position_record (JStr c) sz e m x))"
  using assms
  by (simp add: process_asset_position_def raw_entry_def process_position_def get_float_def
      dict_get_def u_def)

lemma fetch_single:
  assumes "process_asset_position fs e = Inr (Some p)"
  shows "get_whale_positions fs (Response 200 (Some (response_body [e]))) = [p]"
  using assms
  by (simp add: get_whale_positions_def get_whale_positions_try_def response_body_def
      dict_get_def sort_by_value_desc_def)

lemma emoji_50: "get_pnl_emoji 50 = [rocket, rocket, rocket]"
  by (simp add: get_pnl_emoji_def)

text \<open>
  C5. Every returned record is LONG or SHORT; with a positive entry price its P&L
  percentage is \<open>(mark - entry) / entry * 100\<close> when LONG and
  \<open>(entry - mark) / entry * 100\<close> when SHORT; it is 0 when the entry price is not positive.
  An entry with entry price 100, mark price 150 and signed size 2 gives a LONG record
  with percentage 50 and value 300, whose emoji is the three rockets.
\<close>

theorem pnl_pct_formula:
  "(\<forall>p \<in> set (get_whale_positions fs r).
      (pos_side p = u ''LONG'' \<or> pos_side p = u ''SHORT'')
    \<and> (0 < pos_entry_price p \<and> pos_side p = u ''LONG'' \<longrightarrow>
         pos_pnl_pct p = ((pos_mark_price p - pos_entry_price p) / pos_entry_price p) * 100)
    \<and> (0 < pos_entry_price p \<and> pos_side p = u ''SHORT'' \<longrightarrow>
         pos_pnl_pct p = ((pos_entry_price p - pos_mark_price p) / pos_entry_price p) * 100)
    \<and> (pos_entry_price p \<le> 0 \<longrightarrow> pos_pnl_pct p = 0))
   \<and> (c \<in> set WHITELISTED_TOKENS \<and> py_float fs szi = Inr 2 \<and> py_float fs entry_px = Inr 100
        \<and> py_float fs mark_px = Inr 150 \<and> py_float fs upnl = Inr x \<longrightarrow>
       (\<exists>p. get_whale_positions fs
               (Response 200 (Some (response_body [raw_entry c szi entry_px mark_px upnl]))) = [p]
          \<and> pos_side p = u ''LONG'' \<and> pos_pnl_pct p = 50 \<and> pos_value p = 300
          \<and> get_pnl_emoji (pos_pnl_pct p) = [rocket, rocket, rocket]))"
proof -
  have 1: "(pos_side p = u ''LONG'' \<or> pos_side p = u ''SHORT'')
    \<and> (0 < pos_entry_price p \<and> pos_side p = u ''LONG'' \<longrightarrow>
         pos_pnl_pct p = ((pos_mark_price p - pos_entry_price p) / pos_entry_price p) * 100)
    \<and> (0 < pos_entry_price p \<and> pos_side p = u ''SHORT'' \<longrightarrow>
         pos_pnl_pct p = ((pos_entry_price p - pos_mark_price p) / pos_entry_price p) * 100)
    \<and> (pos_entry_price p \<le> 0 \<longrightarrow> pos_pnl_pct p = 0)"
    if "p \<in> set (get_whale_positions fs r)" for p
  proof -
    from member_is_record [OF that] obtain coin sz e m x where
      "p = position_record coin sz e m x" by blast
    then show ?thesis
      using long_neq_short by (simp add: position_record_def)
  qed
  have 2: "\<exists>p. get_whale_positions fs
               (Response 200 (Some (response_body [raw_entry c szi entry_px mark_px upnl]))) = [p]
          \<and> pos_side p = u ''LONG'' \<and> pos_pnl_pct p = 50 \<and> pos_value p = 300
          \<and> get_pnl_emoji (pos_pnl_pct p) = [rocket, rocket, rocket]"
    if a: "c \<in> set WHITELISTED_TOKENS" "py_float fs szi = Inr 2" "py_float fs entry_px = Inr 100"
       "py_float fs mark_px = Inr 150" "py_float fs upnl = Inr x"
  proof -
    have "process_asset_position fs (raw_entry c szi entry_px mark_px upnl)
            = Inr (Some (position_record (JStr c) 2 100 150 x))"
      using a by (intro process_raw_entry) simp_all
    from fetch_single [OF this] show ?thesis
      by (simp add: position_record_def emoji_50)
  qed
  from 1 2 show ?thesis by blast
qed

lemma parse_2: "parse_decimal (u ''2'') = Some 2"
  by (simp add: parse_decimal_def parse_unsigned_def u_def)

lemma parse_100: "parse_decimal (u ''100'') = Some 100"
  by (simp add: parse_decimal_def parse_unsigned_def u_def)

lemma parse_150: "parse_decimal (u ''150'') = Some 150"
  by (simp add: parse_decimal_def parse_unsigned_def u_def)

lemma parse_50: "parse_decimal (u ''50'') = Some 50"
  by (simp add: parse_decimal_def parse_unsigned_def u_def)

lemma parse_10: "parse_decimal (u ''10'') = Some 10"
  by (simp add: parse_decimal_def parse_unsigned_def u_def)

lemma parse_m2: "parse_decimal (u ''-2'') = Some (- 2)"
  by (simp add: parse_decimal_def parse_unsigned_def u_def)

lemma parse_frac: "parse_decimal (u ''12.5'') = Some (25 / 2)"
  by (simp add: parse_decimal_def parse_unsigned_def u_def)

lemma parse_na: "parse_decimal (u ''n/a'') = None"
  by (simp add: parse_decimal_def parse_unsigned_def u_def)

lemma btc_whitelisted: "u ''BTC'' \<in> set WHITELISTED_TOKENS"
  by (simp add: WHITELISTED_TOKENS_def)

lemma parse_0: "parse_decimal (u ''0'') = Some 0"
  by (simp add: parse_decimal_def parse_unsigned_def u_def)

lemma eth_whitelisted: "u ''ETH'' \<in> set WHITELISTED_TOKENS"
  by (simp add: WHITELISTED_TOKENS_def)

lemma sol_whitelisted: "u ''SOL'' \<in> set WHITELISTED_TOKENS"
  by (simp add: WHITELISTED_TOKENS_def)

lemma doge_not_whitelisted: "JStr (u ''DOGE'') \<notin> set (map JStr WHITELISTED_TOKENS)"
  by (simp add: WHITELISTED_TOKENS_def u_def)

lemma raw_coin_raw_entry: "raw_coin (raw_entry c szi epx mpx up) = JStr c"
  by (simp add: raw_coin_def raw_position_def raw_entry_def dict_get_def u_def)

lemma raw_szi_raw_entry:
  "py_float fs szi = Inr sz \<Longrightarrow> raw_szi fs (raw_entry c szi epx mpx up) = sz"
  by (simp add: raw_szi_def raw_position_def raw_entry_def dict_get_def get_float_def u_def)

lemma process_raw_entry_not_whitelisted:
  "JStr c \<notin> set (map JStr WHITELISTED_TOKENS) \<Longrightarrow>
   process_asset_position fs (raw_entry c szi epx mpx up) = Inr None"
  by (simp add: process_asset_position_def raw_entry_def process_position_def dict_get_def u_def)

lemma process_raw_entry_mark_raises:
  assumes "c \<in> set WHITELISTED_TOKENS" "py_float fs szi = Inr sz" "sz \<noteq> 0"
    "py_float fs epx = Inr e" "py_float fs mpx = Inl err"
  shows "process_asset_position fs (raw_entry c szi epx mpx up) = Inl err"
  using assms
  by (simp add: process_asset_position_def raw_entry_def process_position_def get_float_def
      dict_get_def u_def)

lemma process_entry_long:
  "process_asset_position parse_decimal entry_long
     = Inr (Some (position_record (JStr (u ''BTC'')) 2 100 150 (25 / 2)))"
  unfolding entry_long_def
  by (intro process_raw_entry) (simp_all add: btc_whitelisted parse_2 parse_100 parse_150 parse_frac)

lemma process_entry_short:
  "process_asset_position parse_decimal entry_short
     = Inr (Some (position_record (JStr (u ''ETH'')) (- 2) 100 150 10))"
  unfolding entry_short_def
  by (intro process_raw_entry) (simp_all add: eth_whitelisted parse_m2 parse_100 parse_150 parse_10)

lemma process_entry_no_entry_px:
  "process_asset_position parse_decimal entry_no_entry_px
     = Inr (Some (position_record (JStr (u ''SOL'')) 2 0 150 10))"
  unfolding entry_no_entry_px_def
  by (intro process_raw_entry) (simp_all add: sol_whitelisted parse_2 parse_0 parse_150 parse_10)

lemma process_entry_doge: "process_asset_position parse_decimal entry_doge = Inr None"
  unfolding entry_doge_def
  by (rule process_raw_entry_not_whitelisted) (rule doge_not_whitelisted)

lemma process_entry_null_mark:
  "process_asset_position parse_decimal entry_null_mark = Inl TypeError"
  unfolding entry_null_mark_def
  by (rule process_raw_entry_mark_raises [where sz = 2 and e = 100])
     (simp_all add: eth_whitelisted parse_2 parse_100)

lemma try_response_body:
  "get_whale_positions_try fs (Response 200 (Some (response_body es)))
     = and_then (asset_positions_loop fs es []) (\<lambda>positions. Inr (sort_by_value_desc positions))"
  by (simp add: get_whale_positions_try_def response_body_def dict_get_def)

lemma qualifies_entry_long: "qualifies parse_decimal entry_long"
  by (simp add: qualifies_def entry_long_def raw_coin_raw_entry
      raw_szi_raw_entry [where sz = 2] parse_2 btc_whitelisted)

lemma qualifies_entry_null_mark: "qualifies parse_decimal entry_null_mark"
  by (simp add: qualifies_def entry_null_mark_def raw_coin_raw_entry
      raw_szi_raw_entry [where sz = 2] parse_2 eth_whitelisted)

lemma not_qualifies_entry_doge: "\<not> qualifies parse_decimal entry_doge"
  using doge_not_whitelisted
  by (simp add: qualifies_def entry_doge_def raw_coin_raw_entry)

text \<open>
  C2 as stated fails: a response of status 200 with two entries, both with a whitelisted
  coin and a signed size of 2; the second has \<open>markPx\<close> null, \<open>float\<close> raises on it, and
  the function returns no record at all, not even for the first entry.
\<close>

theorem qualifying_entry_without_record:
  "qualifies parse_decimal entry_long
   \<and> qualifies parse_decimal entry_null_mark
   \<and> response_entries (response_body [entry_long, entry_null_mark]) = [entry_long, entry_null_mark]
   \<and> get_whale_positions parse_decimal
       (Response 200 (Some (response_body [entry_long, entry_null_mark]))) = []"
  by (simp add: qualifies_entry_long qualifies_entry_null_mark response_body_entries
      get_whale_positions_def try_response_body process_entry_long process_entry_null_mark)

lemma try_long_doge:
  "get_whale_positions_try parse_decimal (Response 200 (Some (response_body [entry_doge, entry_long])))
     = Inr [position_record (JStr (u ''BTC'')) 2 100 150 (25 / 2)]"
  by (simp add: try_response_body process_entry_long process_entry_doge sort_by_value_desc_def)

text \<open>
  A response with a DOGE entry and a BTC entry of size 2: nothing raises, and only the
  BTC entry has a record.
\<close>

theorem records_of_qualifying_entries_witness:
  "get_whale_positions_try parse_decimal (Response 200 (Some (response_body [entry_doge, entry_long])))
     = Inr [position_record (JStr (u ''BTC'')) 2 100 150 (25 / 2)]
   \<and> get_whale_positions parse_decimal (Response 200 (Some (response_body [entry_doge, entry_long])))
     = sort_by_value_desc (List.map_filter (entry_record parse_decimal) [entry_doge, entry_long])
   \<and> entry_record parse_decimal entry_doge = None
   \<and> \<not> qualifies parse_decimal entry_doge
   \<and> entry_record parse_decimal entry_long
       = Some (position_record (JStr (u ''BTC'')) 2 100 150 (25 / 2))
   \<and> qualifies parse_decimal entry_long
   \<and> pos_side (position_record (JStr (u ''BTC'')) 2 100 150 (25 / 2)) = u ''LONG''
   \<and> pos_size (position_record (JStr (u ''BTC'')) 2 100 150 (25 / 2)) = 2"
proof -
  from records_of_qualifying_entries [OF try_long_doge]
  have a: "get_whale_positions parse_decimal (Response 200 (Some (response_body [entry_doge, entry_long])))
     = sort_by_value_desc (List.map_filter (entry_record parse_decimal) [entry_doge, entry_long])"
    unfolding response_body_entries by blast
  have b: "entry_record parse_decimal entry_doge = None"
    by (simp add: entry_record_def process_entry_doge)
  have c: "entry_record parse_decimal entry_long
       = Some (position_record (JStr (u ''BTC'')) 2 100 150 (25 / 2))"
    by (simp add: entry_record_def process_entry_long)
  have d: "pos_side (position_record (JStr (u ''BTC'')) 2 100 150 (25 / 2)) = u ''LONG''"
    "pos_size (position_record (JStr (u ''BTC'')) 2 100 150 (25 / 2)) = 2"
    by (simp_all add: position_record_def)
  from try_long_doge a b not_qualifies_entry_doge c qualifies_entry_long d
  show ?thesis by blast
qed

text \<open>
  Status 500; a body that is not JSON; an entry whose \<open>markPx\<close> is null.
\<close>

theorem get_whale_positions_never_raises_witness:
  "(500 :: int) \<noteq> 200
   \<and> get_whale_positions parse_decimal (Response 500 (Some (response_body [entry_long]))) = []
   \<and> get_whale_positions_try parse_decimal (Response 200 (Some (response_body [entry_null_mark])))
       = Inl TypeError
   \<and> get_whale_positions parse_decimal (Response 200 (Some (response_body [entry_null_mark]))) = []
   \<and> get_whale_positions_try parse_decimal (Response 200 None) = Inl JSONDecodeError
   \<and> get_whale_positions parse_decimal (Response 200 None) = []"
proof -
  have a: "get_whale_positions_try parse_decimal (Response 200 (Some (response_body [entry_null_mark])))
       = Inl TypeError"
    by (simp add: try_response_body process_entry_null_mark)
  have b: "get_whale_positions_try parse_decimal (Response 200 None) = Inl JSONDecodeError"
    by (simp add: get_whale_positions_try_def)
  show ?thesis
    using a b
      get_whale_positions_never_raises [of parse_decimal 500 "Some (response_body [entry_long])"
        "Response 200 (Some (response_body [entry_null_mark]))" TypeError]
      get_whale_positions_never_raises [of parse_decimal 500 None "Response 200 None" JSONDecodeError]
    by simp
qed

text \<open>
  A LONG and a SHORT record with entry price 100 and mark price 150, and a record with
  entry price 0.
\<close>

theorem pnl_pct_formula_witness:
  "get_whale_positions parse_decimal (Response 200 (Some (response_body [entry_long])))
     = [position_record (JStr (u ''BTC'')) 2 100 150 (25 / 2)]
   \<and> pos_side (position_record (JStr (u ''BTC'')) 2 100 150 (25 / 2)) = u ''LONG''
   \<and> pos_pnl_pct (position_record (JStr (u ''BTC'')) 2 100 150 (25 / 2)) = ((150 - 100) / 100) * 100
   \<and> pos_pnl_pct (position_record (JStr (u ''BTC'')) 2 100 150 (25 / 2)) = 50
   \<and> get_whale_positions parse_decimal (Response 200 (Some (response_body [entry_short])))
     = [position_record (JStr (u ''ETH'')) (- 2) 100 150 10]
   \<and> pos_side (position_record (JStr (u ''ETH'')) (- 2) 100 150 10) = u ''SHORT''
   \<and> pos_pnl_pct (position_record (JStr (u ''ETH'')) (- 2) 100 150 10) = ((100 - 150) / 100) * 100
   \<and> get_whale_positions parse_decimal (Response 200 (Some (response_body [entry_no_entry_px])))
     = [position_record (JStr (u ''SOL'')) 2 0 150 10]
   \<and> pos_entry_price (position_record (JStr (u ''SOL'')) 2 0 150 10) \<le> 0
   \<and> pos_pnl_pct (position_record (JStr (u ''SOL'')) 2 0 150 10) = 0"
proof -
  note f1 = fetch_single [OF process_entry_long]
  note f2 = fetch_single [OF process_entry_short]
  note f3 = fetch_single [OF process_entry_no_entry_px]
  have e1: "pos_entry_price (position_record (JStr (u ''BTC'')) 2 100 150 (25 / 2)) = 100"
    "pos_mark_price (position_record (JStr (u ''BTC'')) 2 100 150 (25 / 2)) = 150"
    "pos_side (position_record (JStr (u ''BTC'')) 2 100 150 (25 / 2)) = u ''LONG''"
    by (simp_all add: position_record_def)
  have e2: "pos_entry_price (position_record (JStr (u ''ETH'')) (- 2) 100 150 10) = 100"
    "pos_mark_price (position_record (JStr (u ''ETH'')) (- 2) 100 150 10) = 150"
    "pos_side (position_record (JStr (u ''ETH'')) (- 2) 100 150 10) = u ''SHORT''"
    by (simp_all add: position_record_def)
  have e3: "pos_entry_price (position_record (JStr (u ''SOL'')) 2 0 150 10) = 0"
    by (simp add: position_record_def)
  from pnl_pct_formula [of parse_decimal "Response 200 (Some (response_body [entry_long]))"]
  have p1: "pos_pnl_pct (position_record (JStr (u ''BTC'')) 2 100 150 (25 / 2))
              = ((150 - 100) / 100) * 100"
    by (simp add: f1 e1)
  from pnl_pct_formula [of parse_decimal "Response 200 (Some (response_body [entry_short]))"]
  have p2: "pos_pnl_pct (position_record (JStr (u ''ETH'')) (- 2) 100 150 10)
              = ((100 - 150) / 100) * 100"
    by (simp add: f2 e2)
  from pnl_pct_formula [of parse_decimal "Response 200 (Some (response_body [entry_no_entry_px]))"]
  have p3: "pos_pnl_pct (position_record (JStr (u ''SOL'')) 2 0 150 10) = 0"
    by (simp add: f3 e3)
  from p1 have p1': "pos_pnl_pct (position_record (JStr (u ''BTC'')) 2 100 150 (25 / 2)) = 50"
    by simp
  from f1 f2 f3 e1 e2 e3 p1 p1' p2 p3 show ?thesis by simp
qed

section \<open>Properties of the report\<close>

lemma positions_loop_message:
  "message (positions_loop ps st) = message st @ concat (map position_text ps)"
  by (induction ps arbitrary: st) simp_all

lemma positions_loop_total_positions:
  "total_positions (positions_loop ps st) = total_positions st + length ps"
  by (induction ps arbitrary: st) simp_all

lemma positions_loop_active:
  "total_whales_with_positions (positions_loop ps st) = total_whales_with_positions st"
  by (induction ps arbitrary: st) simp_all

lemma positions_loop_total_value:
  "total_value (positions_loop ps st) = total_value st"
  by (induction ps arbitrary: st) simp_all

lemma whale_step_message:
  "message (whale_step fs post i w st) =
     (let ps = get_whale_positions fs (post i (address w))
      in if ps = [] then message st else message st @ whale_block_text w ps)"
  by (simp add: whale_step_def Let_def positions_loop_message whale_block_text_def whale_value_def)

lemma whale_step_active:
  "total_whales_with_positions (whale_step fs post i w st) =
     (if get_whale_positions fs (post i (address w)) = [] then total_whales_with_positions st
      else total_whales_with_positions st + 1)"
  by (simp add: whale_step_def Let_def positions_loop_active)

lemma whale_step_total_positions:
  "total_positions (whale_step fs post i w st) =
     total_positions st + length (get_whale_positions fs (post i (address w)))"
  by (simp add: whale_step_def Let_def positions_loop_total_positions)

lemma whale_step_total_value:
  "total_value (whale_step fs post i w st) =
     (if get_whale_positions fs (post i (address w)) = [] then total_value st
      else total_value st + whale_value (get_whale_positions fs (post i (address w))))"
  by (simp add: whale_step_def Let_def positions_loop_total_value whale_value_def)

lemma whales_loop_message:
  "message (whales_loop fs post i ws st) =
     message st @ concat (map (\<lambda>(w, ps). whale_block_text w ps)
                      (filter (\<lambda>(w, ps). ps \<noteq> []) (fetched fs post i ws)))"
  by (induction ws arbitrary: i st) (simp_all add: whale_step_message Let_def)

lemma whales_loop_active:
  "total_whales_with_positions (whales_loop fs post i ws st) =
     total_whales_with_positions st
     + length (filter (\<lambda>(w, ps). ps \<noteq> []) (fetched fs post i ws))"
  by (induction ws arbitrary: i st) (simp_all add: whale_step_active)

lemma whales_loop_total_positions:
  "total_positions (whales_loop fs post i ws st) =
     total_positions st + sum_list (map (\<lambda>(w, ps). length ps) (fetched fs post i ws))"
  by (induction ws arbitrary: i st) (simp_all add: whale_step_total_positions)

lemma whales_loop_total_value:
  "total_value (whales_loop fs post i ws st) =
     total_value st + sum_list (map (\<lambda>(w, ps). whale_value ps)
                          (filter (\<lambda>(w, ps). ps \<noteq> []) (fetched fs post i ws)))"
  by (induction ws arbitrary: i st) (simp_all add: whale_step_total_value)

lemma length_fetched: "length (fetched fs post i ws) = length ws"
  by (induction ws arbitrary: i) simp_all

lemma map_fst_fetched: "map fst (fetched fs post i ws) = ws"
  by (induction ws arbitrary: i) simp_all

lemma report_shape:
  "get_all_whale_positions fs post ts whales =
     header_text ts
     @ concat (map (\<lambda>(w, ps). whale_block_text w ps) (included fs post whales))
     @ (if length (included fs post whales) = 0 then no_positions_text
        else footer_text (length (included fs post whales)) (length whales)
               (sum_list (map (\<lambda>(w, ps). length ps) (fetched fs post 0 whales)))
               (sum_list (map (\<lambda>(w, ps). whale_value ps) (included fs post whales))))"
  by (simp add: get_all_whale_positions_def Let_def whales_loop_message whales_loop_active
      whales_loop_total_positions whales_loop_total_value initial_state_def included_def)

text \<open>
  C3. At the end of the loop over the whales, the count of active whales is the number
  of configured whales whose fetched list is not empty, the count of positions is the sum
  of the lengths of the fetched lists, and the total value is the sum, over the whales
  with a non-empty list, of the sum of the values of their positions (floats being reals,
  the sums are exact). The report is the header, one block for each whale with a
  non-empty list, in order, and then the footer showing these three numbers and the
  number of configured whales; a whale with an empty list has no block and is counted
  only in the number of configured whales.
\<close>

theorem report_summary:
  "total_whales_with_positions (whales_loop fs post 0 whales (initial_state ts))
     = length (filter (\<lambda>(w, ps). ps \<noteq> []) (fetched fs post 0 whales))
   \<and> length (fetched fs post 0 whales) = length whales
   \<and> map fst (fetched fs post 0 whales) = whales
   \<and> total_positions (whales_loop fs post 0 whales (initial_state ts))
     = sum_list (map (\<lambda>(w, ps). length ps) (fetched fs post 0 whales))
   \<and> total_value (whales_loop fs post 0 whales (initial_state ts))
     = sum_list (map (\<lambda>(w, ps). sum_list (map pos_value ps)) (included fs post whales))
   \<and> included fs post whales = filter (\<lambda>(w, ps). ps \<noteq> []) (fetched fs post 0 whales)
   \<and> get_all_whale_positions fs post ts whales =
       header_text ts
       @ concat (map (\<lambda>(w, ps). whale_block_text w ps) (included fs post whales))
       @ (if length (included fs post whales) = 0 then no_positions_text
          else footer_text (length (included fs post whales)) (length whales)
                 (sum_list (map (\<lambda>(w, ps). length ps) (fetched fs post 0 whales)))
                 (sum_list (map (\<lambda>(w, ps). sum_list (map pos_value ps))
                              (included fs post whales))))"
proof -
  have v: "(\<lambda>(w, ps). whale_value ps) = (\<lambda>(w :: whale, ps). sum_list (map pos_value ps))"
    by (simp add: whale_value_def)
  show ?thesis
    using report_shape [of fs post ts whales]
    by (simp add: whales_loop_active whales_loop_total_positions whales_loop_total_value
        initial_state_def included_def length_fetched map_fst_fetched v)
qed

lemma included_Nil:
  "list_all (\<lambda>(w, ps). ps = []) (fetched fs post i ws) \<Longrightarrow>
   filter (\<lambda>(w, ps). ps \<noteq> []) (fetched fs post i ws) = []"
  by (induction ws arbitrary: i) simp_all

text \<open>
  C7, as amended. When no configured whale has a position, the report is the header
  block followed by the one italic line, and nothing else: there is no footer.
\<close>

theorem no_positions_report:
  assumes "list_all (\<lambda>(w, ps). ps = []) (fetched fs post 0 whales)"
  shows "get_all_whale_positions fs post ts whales
           = header_text ts @ u ''<i>No active BTC/ETH/SOL positions found</i>\<newline>''"
  using included_Nil [OF assms]
  by (simp add: report_shape included_def no_positions_text_def)

lemma fetched_status_500:
  "fetched parse_decimal post_status_500 0 [example_whale] = [(example_whale, [])]"
  by (simp add: post_status_500_def get_whale_positions_def get_whale_positions_try_def)

lemma header_text_not_Nil: "header_text ts \<noteq> []"
  by (simp add: header_text_def u_def)

text \<open>
  C7 as stated fails: for one whale whose request gets status 500, the report is not the
  italic line alone.
\<close>

theorem no_positions_report_has_header:
  "fetched parse_decimal post_status_500 0 [example_whale] = [(example_whale, [])]
   \<and> get_all_whale_positions parse_decimal post_status_500 example_timestamp [example_whale]
       \<noteq> u ''<i>No active BTC/ETH/SOL positions found</i>\<newline>''"
proof -
  have "included parse_decimal post_status_500 [example_whale] = []"
    unfolding included_def fetched_status_500 by simp
  then have "get_all_whale_positions parse_decimal post_status_500 example_timestamp [example_whale]
      = header_text example_timestamp @ u ''<i>No active BTC/ETH/SOL positions found</i>\<newline>''"
    by (simp add: report_shape no_positions_text_def)
  with header_text_not_Nil [of example_timestamp] fetched_status_500 show ?thesis
    by simp
qed

text \<open>
  One whale whose request gets status 500.
\<close>

theorem no_positions_report_witness:
  "fetched parse_decimal post_status_500 0 [example_whale] = [(example_whale, [])]
   \<and> get_all_whale_positions parse_decimal post_status_500 example_timestamp [example_whale]
       = header_text example_timestamp @ u ''<i>No active BTC/ETH/SOL positions found</i>\<newline>''"
proof -
  have "list_all (\<lambda>(w, ps). ps = []) (fetched parse_decimal post_status_500 0 [example_whale])"
    unfolding fetched_status_500 by simp
  from no_positions_report [OF this] fetched_status_500 show ?thesis by blast
qed

lemma escape_char_no_markup:
  "60 \<notin> set (escape_char c) \<and> 62 \<notin> set (escape_char c)
   \<and> 34 \<notin> set (escape_char c) \<and> 39 \<notin> set (escape_char c)"
  by (simp add: escape_char_def u_def)

lemma html_escape_no_markup:
  "60 \<notin> set (html_escape s) \<and> 62 \<notin> set (html_escape s)
   \<and> 34 \<notin> set (html_escape s) \<and> 39 \<notin> set (html_escape s)"
  using escape_char_no_markup by (auto simp: html_escape_def)

lemma html_escape_script: "html_escape (u ''<script>'') = u ''&lt;script&gt;''"
  by (simp add: html_escape_def escape_char_def u_def)

lemma whale_block_name:
  "\<exists>rest. \<forall>nm.
     whale_block_text (w\<lparr>name := nm\<rparr>) ps =
       u ''<b>'' @ [128202] @ u '' <a href='' @ [39]
       @ u ''https://www.coinglass.com/hyperliquid/'' @ address w @ [39] @ u ''>''
       @ html_escape nm
       @ u ''</a></b>\<newline>'' @ rest"
proof -
  have "\<forall>nm.
     whale_block_text (w\<lparr>name := nm\<rparr>) ps =
       u ''<b>'' @ [128202] @ u '' <a href='' @ [39]
       @ u ''https://www.coinglass.com/hyperliquid/'' @ address w @ [39] @ u ''>''
       @ html_escape nm
       @ u ''</a></b>\<newline>''
       @ (u ''<code>Address: '' @ take 6 (address w) @ u ''...''
          @ drop (length (address w) - 4) (address w) @ u ''</code>\<newline>''
          @ u ''<code>Total Value: '' @ format_value (whale_value ps) @ u ''</code>\<newline>''
          @ u ''<code>'' @ replicate 40 45 @ u ''</code>\<newline>''
          @ concat (map position_text ps) @ u ''\<newline>'')"
    by (simp add: whale_block_text_def whale_header_text_def Let_def)
  then show ?thesis by (rule exI)
qed

text \<open>
  C8. The report is the header, the blocks of the included whales and the footer; the
  block of a whale depends on its name only through \<open>html_escape\<close> of the name, which
  stands between the opening of the link and its closing tag. The escaped name contains
  none of \<open><\<close>, \<open>>\<close>, the double quote and the single quote, and each of these and \<open>&\<close>
  is replaced by its entity; \<open><script>\<close> becomes \<open>&lt;script&gt;\<close>.
\<close>

theorem display_name_escaped:
  "get_all_whale_positions fs post ts whales =
     header_text ts
     @ concat (map (\<lambda>(w, ps). whale_block_text w ps) (included fs post whales))
     @ (if length (included fs post whales) = 0 then no_positions_text
        else footer_text (length (included fs post whales)) (length whales)
               (sum_list (map (\<lambda>(w, ps). length ps) (fetched fs post 0 whales)))
               (sum_list (map (\<lambda>(w, ps). whale_value ps) (included fs post whales))))
   \<and> (\<exists>rest. \<forall>nm.
         whale_block_text (w\<lparr>name := nm\<rparr>) ps =
           u ''<b>'' @ [128202] @ u '' <a href='' @ [39]
           @ u ''https://www.coinglass.com/hyperliquid/'' @ address w @ [39] @ u ''>''
           @ html_escape nm
           @ u ''</a></b>\<newline>'' @ rest)
   \<and> html_escape nm = concat (map escape_char nm)
   \<and> escape_char 38 = u ''&amp;'' \<and> escape_char 60 = u ''&lt;'' \<and> escape_char 62 = u ''&gt;''
   \<and> escape_char 34 = u ''&quot;'' \<and> escape_char 39 = u ''&#x27;''
   \<and> 60 \<notin> set (html_escape nm) \<and> 62 \<notin> set (html_escape nm)
   \<and> 34 \<notin> set (html_escape nm) \<and> 39 \<notin> set (html_escape nm)
   \<and> html_escape (u ''<script>'') = u ''&lt;script&gt;''"
proof -
  have 2: "\<exists>rest. \<forall>nm.
         whale_block_text (w\<lparr>name := nm\<rparr>) ps =
           u ''<b>'' @ [128202] @ u '' <a href='' @ [39]
           @ u ''https://www.coinglass.com/hyperliquid/'' @ address w @ [39] @ u ''>''
           @ html_escape nm
           @ u ''</a></b>\<newline>'' @ rest"
    by (rule whale_block_name)
  have 3: "escape_char 38 = u ''&amp;'' \<and> escape_char 60 = u ''&lt;'' \<and> escape_char 62 = u ''&gt;''
   \<and> escape_char 34 = u ''&quot;'' \<and> escape_char 39 = u ''&#x27;''"
    by (simp add: escape_char_def)
  from report_shape [of fs post ts whales] 2 3 html_escape_no_markup [of nm] html_escape_script
  show ?thesis by (simp add: html_escape_def)
qed

lemma str_nat_small: "n < 10 \<Longrightarrow> str_nat n = [48 + n]"
  by (simp add: str_nat.simps)

lemma str_nat_length_100: "n < 100 \<Longrightarrow> length (str_nat n) \<le> 2"
proof -
  assume "n < 100"
  then have "n div 10 < 10" by simp
  then have "str_nat (n div 10) = [48 + n div 10]" by (rule str_nat_small)
  then show ?thesis by (simp add: str_nat.simps [of n])
qed

lemma frac_part_2: "\<exists>fr. length fr = 2 \<and> frac_part 2 n = u ''.'' @ fr"
proof -
  have "n mod 100 < 100" by simp
  then have "length (str_nat (n mod 100)) \<le> 2" by (rule str_nat_length_100)
  then show ?thesis by (simp add: frac_part_def Let_def)
qed

lemma format_f_2_abs:
  "\<exists>fr. length fr = 2 \<and> format_f 2 \<bar>x\<bar> = str_nat (scaled_digits 2 x div 100) @ u ''.'' @ fr"
proof -
  from frac_part_2 [of "scaled_digits 2 x"] obtain fr where
    "length fr = 2" "frac_part 2 (scaled_digits 2 x) = u ''.'' @ fr" by blast
  then show ?thesis by (simp add: format_f_def scaled_digits_def Let_def)
qed

lemma pnl_line_eq:
  "pnl_line pos =
     u ''  P&L: <b>'' @ (if pos_pnl_usd pos \<ge> 0 then u ''+'' else u ''-'')
     @ format_value \<bar>pos_pnl_usd pos\<bar> @ u ''</b> (<b>''
     @ (if pos_pnl_usd pos \<ge> 0 then u ''+'' else u ''-'')
     @ format_f 2 \<bar>pos_pnl_pct pos\<bar> @ u ''%</b>)\<newline>''"
  by (simp add: pnl_line_def u_def)

text \<open>
  C9, as amended. In the P&L line of a position, which ends the text of the position,
  the USD amount and the percentage are both prefixed with the sign of the unrealized
  P&L in USD: \<open>+\<close> when it is at least 0, \<open>-\<close> otherwise. The amounts shown are the
  absolute values; the percentage has two decimals.
\<close>

theorem pnl_line_sign_of_usd:
  "pnl_line pos =
     u ''  P&L: <b>'' @ (if pos_pnl_usd pos \<ge> 0 then u ''+'' else u ''-'')
     @ format_value \<bar>pos_pnl_usd pos\<bar> @ u ''</b> (<b>''
     @ (if pos_pnl_usd pos \<ge> 0 then u ''+'' else u ''-'')
     @ format_f 2 \<bar>pos_pnl_pct pos\<bar> @ u ''%</b>)\<newline>''
   \<and> (\<exists>fr. length fr = 2
          \<and> format_f 2 \<bar>pos_pnl_pct pos\<bar>
              = str_nat (scaled_digits 2 (pos_pnl_pct pos) div 100) @ u ''.'' @ fr)
   \<and> (\<exists>pre. position_text pos = pre @ pnl_line pos @ u ''\<newline>'')"
proof -
  have "\<exists>pre. position_text pos = pre @ pnl_line pos @ u ''\<newline>''"
    unfolding position_text_def
    by (rule exI [where x = "u ''<b>'' @ pos_coin pos @ u '' '' @ pos_side pos @ u ''</b> ''
       @ get_pnl_emoji (pos_pnl_pct pos) @ u ''\<newline>''
     @ u ''  Size: '' @ format_value (pos_value pos) @ u ''\<newline>''
     @ u ''  Entry: '' @ format_price (pos_entry_price pos) @ u ''\<newline>''
     @ u ''  Mark: '' @ format_price (pos_mark_price pos) @ u ''\<newline>''"]) simp
  with pnl_line_eq [of pos] format_f_2_abs [of "pos_pnl_pct pos"] show ?thesis by blast
qed

lemma round_half_even_of_nat: "round_half_even (real n) = int n"
  by (simp add: round_half_even_def Let_def)

lemma format_value_10: "format_value 10 = u ''$10''"
proof -
  have "scaled_digits 0 10 = 10"
    using round_half_even_of_nat [of 10] by (simp add: scaled_digits_def)
  then show ?thesis
    by (simp add: format_value_def format_f_def Let_def frac_part_def str_nat.simps u_def)
qed

lemma format_f_2_50: "format_f 2 50 = u ''50.00''"
proof -
  have "scaled_digits 2 50 = 5000"
    using round_half_even_of_nat [of 5000] by (simp add: scaled_digits_def)
  then show ?thesis
    by (simp add: format_f_def Let_def frac_part_def str_nat.simps u_def)
qed

lemma process_entry_mixed_signs:
  "process_asset_position parse_decimal entry_mixed_signs
     = Inr (Some (position_record (JStr (u ''BTC'')) 2 100 50 10))"
  unfolding entry_mixed_signs_def
  by (intro process_raw_entry) (simp_all add: btc_whitelisted parse_2 parse_100 parse_50 parse_10)

text \<open>
  C9 as stated fails: a LONG position with entry price 100, mark price 50 and an
  upstream unrealized P&L of +10 has percentage -50, and its line shows \<open>+50.00%\<close>.
\<close>

theorem pnl_percentage_sign_mismatch:
  "get_whale_positions parse_decimal (Response 200 (Some (response_body [entry_mixed_signs])))
     = [position_record (JStr (u ''BTC'')) 2 100 50 10]
   \<and> pos_pnl_usd (position_record (JStr (u ''BTC'')) 2 100 50 10) = 10
   \<and> pos_pnl_pct (position_record (JStr (u ''BTC'')) 2 100 50 10) = - 50
   \<and> pnl_line (position_record (JStr (u ''BTC'')) 2 100 50 10)
       = u ''  P&L: <b>+$10</b> (<b>+50.00%</b>)\<newline>''"
proof -
  have a: "pos_pnl_usd (position_record (JStr (u ''BTC'')) 2 100 50 10) = 10"
    "pos_pnl_pct (position_record (JStr (u ''BTC'')) 2 100 50 10) = - 50"
    by (simp_all add: position_record_def)
  have "pnl_line (position_record (JStr (u ''BTC'')) 2 100 50 10)
       = u ''  P&L: <b>+'' @ format_value 10 @ u ''</b> '' @ u ''(<b>+'' @ format_f 2 50
         @ u ''%</b>)\<newline>''"
    by (simp add: pnl_line_def a)
  also have "\<dots> = u ''  P&L: <b>+$10</b> (<b>+50.00%</b>)\<newline>''"
    unfolding format_value_10 format_f_2_50 by (simp add: u_def)
  finally show ?thesis
    using fetch_single [OF process_entry_mixed_signs] a by simp
qed

section \<open>A report of nine whales\<close>

lemma scaled_digits_0_nat: "scaled_digits 0 (real n) = n"
  using round_half_even_of_nat [of n] by (simp add: scaled_digits_def)

lemma scaled_digits_2_nat: "scaled_digits 2 (real n) = n * 100"
  using round_half_even_of_nat [of "n * 100"] by (simp add: scaled_digits_def)

lemma format_value_300: "format_value 300 = u ''$300''"
  using scaled_digits_0_nat [of 300]
  by (simp add: format_value_def format_f_def Let_def frac_part_def str_nat.simps u_def)

lemma format_value_600: "format_value 600 = u ''$600''"
  using scaled_digits_0_nat [of 600]
  by (simp add: format_value_def format_f_def Let_def frac_part_def str_nat.simps u_def)

lemma round_half_even_12: "round_half_even (25 / 2) = 12"
proof -
  have "\<lfloor>25 / 2 :: real\<rfloor> = 12" by linarith
  then show ?thesis by (simp add: round_half_even_def Let_def)
qed

lemma format_value_12: "format_value (25 / 2) = u ''$12''"
  using round_half_even_12
  by (simp add: format_value_def format_f_def Let_def frac_part_def scaled_digits_def
      str_nat.simps u_def)

lemma round_half_even_5: "round_half_even (27 / 5) = 5"
proof -
  have "\<lfloor>27 / 5 :: real\<rfloor> = 5" by linarith
  then show ?thesis by (simp add: round_half_even_def Let_def)
qed

lemma format_value_5400: "format_value 5400 = u ''$5K''"
  using round_half_even_5
  by (simp add: format_value_def format_f_def Let_def frac_part_def scaled_digits_def
      str_nat.simps u_def)

lemma format_price_100: "format_price 100 = u ''$100.00''"
  using scaled_digits_2_nat [of 100]
  by (simp add: format_price_def format_comma_f_def Let_def frac_part_def add_commas_def
      str_nat.simps u_def)

lemma format_price_150: "format_price 150 = u ''$150.00''"
  using scaled_digits_2_nat [of 150]
  by (simp add: format_price_def format_comma_f_def Let_def frac_part_def add_commas_def
      str_nat.simps u_def)

lemma position_text_long:
  "position_text position_long =
     u ''<b>BTC LONG</b> '' @ [rocket, rocket, rocket]
     @ u ''\<newline>  Size: $300\<newline>  Entry: $100.00\<newline>  Mark: $150.00\<newline>  P&L: <b>+$12</b> (<b>+50.00%</b>)\<newline>\<newline>''"
  by (simp add: position_text_def position_long_def position_record_def pnl_line_def
      get_pnl_emoji_def format_value_300 format_value_12 format_price_100 format_price_150
      format_f_2_50)
     (simp add: u_def)

lemma position_text_short:
  "position_text position_short =
     u ''<b>ETH SHORT</b> '' @ [128128]
     @ u ''\<newline>  Size: $300\<newline>  Entry: $100.00\<newline>  Mark: $150.00\<newline>  P&L: <b>+$10</b> (<b>+50.00%</b>)\<newline>\<newline>''"
  by (simp add: position_text_def position_short_def position_record_def pnl_line_def
      get_pnl_emoji_def format_value_300 format_value_10 format_price_100 format_price_150
      format_f_2_50)
     (simp add: u_def)

lemma take_butlast2: "take (length (xs @ [a, b]) - 2) (xs @ [a, b]) = xs"
  by simp

lemma pnl_line_ends: "\<exists>ys. pnl_line pos = ys @ [10]"
proof (cases "pos_pnl_usd pos \<ge> 0")
  case True
  have "u ''%</b>)\<newline>'' = u ''%</b>)'' @ [10]" by (simp add: u_def)
  with True have "pnl_line pos = (u ''  P&L: <b>+'' @ format_value \<bar>pos_pnl_usd pos\<bar> @ u ''</b> ''
           @ u ''(<b>+'' @ format_f 2 \<bar>pos_pnl_pct pos\<bar> @ u ''%</b>)'') @ [10]"
    by (simp add: pnl_line_def)
  then show ?thesis by (rule exI)
next
  case False
  have "u ''%</b>)\<newline>'' = u ''%</b>)'' @ [10]" by (simp add: u_def)
  with False have "pnl_line pos = (u ''  P&L: <b>-'' @ format_value \<bar>pos_pnl_usd pos\<bar> @ u ''</b> ''
           @ u ''(<b>-'' @ format_f 2 \<bar>pos_pnl_pct pos\<bar> @ u ''%</b>)'') @ [10]"
    by (simp add: pnl_line_def)
  then show ?thesis by (rule exI)
qed

lemma position_text_core: "position_text pos = position_core pos @ [10, 10]"
proof -
  from pnl_line_ends [of pos] obtain ys where ys: "pnl_line pos = ys @ [10]" by blast
  have n: "u ''\<newline>'' = [10]" by (simp add: u_def)
  have "\<exists>xs. position_text pos = xs @ [10, 10]"
    unfolding position_text_def ys n
    by (rule exI [where x = "u ''<b>'' @ pos_coin pos @ u '' '' @ pos_side pos @ u ''</b> ''
       @ get_pnl_emoji (pos_pnl_pct pos) @ [10]
     @ u ''  Size: '' @ format_value (pos_value pos) @ [10]
     @ u ''  Entry: '' @ format_price (pos_entry_price pos) @ [10]
     @ u ''  Mark: '' @ format_price (pos_mark_price pos) @ [10] @ ys"]) simp
  then obtain xs where xs: "position_text pos = xs @ [10, 10]" by blast
  have "position_core pos = xs"
    unfolding position_core_def xs by (rule take_butlast2)
  with xs show ?thesis by simp
qed

lemma header_text_core: "header_text ts = header_core ts @ [10, 10]"
proof -
  have "u ''</code>\<newline>\<newline>'' = u ''</code>'' @ [10, 10]" by (simp add: u_def)
  then have xs: "header_text ts =
     (u ''<b>'' @ [128011] @ u '' WHALE POSITIONS REPORT '' @ [128011] @ u ''</b>\<newline>''
     @ u ''<code>Generated: '' @ ts @ u ''</code>\<newline>''
     @ u ''<code>'' @ replicate 40 61 @ u ''</code>'') @ [10, 10]"
    by (simp add: header_text_def)
  have "header_core ts =
     u ''<b>'' @ [128011] @ u '' WHALE POSITIONS REPORT '' @ [128011] @ u ''</b>\<newline>''
     @ u ''<code>Generated: '' @ ts @ u ''</code>\<newline>''
     @ u ''<code>'' @ replicate 40 61 @ u ''</code>''"
    unfolding header_core_def xs by (rule take_butlast2)
  with xs show ?thesis by simp
qed

lemma replicate_40_61: "replicate 40 61 = u ''========================================''"
proof -
  have h: "replicate (length (u ''========================================'')) 61
          = u ''========================================''"
    by (rule replicate_length_same) (simp add: u_def)
  have l: "length (u ''========================================'') = 40"
    by (simp add: u_def)
  from h show ?thesis unfolding l .
qed

lemma replicate_40_45: "replicate 40 45 = u ''----------------------------------------''"
proof -
  have h: "replicate (length (u ''----------------------------------------'')) 45
          = u ''----------------------------------------''"
    by (rule replicate_length_same) (simp add: u_def)
  have l: "length (u ''----------------------------------------'') = 40"
    by (simp add: u_def)
  from h show ?thesis unfolding l .
qed

lemma core_eq: "t = c @ [10, 10] \<Longrightarrow> t = l @ [10, 10] \<Longrightarrow> c = l"
  by simp

lemma position_core_long:
  "position_core position_long =
     u ''<b>BTC LONG</b> '' @ [rocket, rocket, rocket]
     @ u ''\<newline>  Size: $300\<newline>  Entry: $100.00\<newline>  Mark: $150.00\<newline>  P&L: <b>+$12</b> (<b>+50.00%</b>)''"
  by (rule core_eq [OF position_text_core]) (simp add: position_text_long u_def)

lemma position_core_short:
  "position_core position_short =
     u ''<b>ETH SHORT</b> '' @ [128128]
     @ u ''\<newline>  Size: $300\<newline>  Entry: $100.00\<newline>  Mark: $150.00\<newline>  P&L: <b>+$10</b> (<b>+50.00%</b>)''"
  by (rule core_eq [OF position_text_core]) (simp add: position_text_short u_def)

lemma header_core_example:
  "header_core example_timestamp =
     u ''<b>'' @ [128011] @ u '' WHALE POSITIONS REPORT '' @ [128011] @ u ''</b>\<newline>''
     @ u ''<code>Generated: 2026-01-01 00:00:00 UTC</code>\<newline>''
     @ u ''<code>========================================</code>''"
  by (rule core_eq [OF header_text_core])
     (simp add: header_text_def example_timestamp_def replicate_40_61, simp add: u_def)

lemma length_core_long: "length (position_core position_long) = 101"
  by (simp add: position_core_long u_def)

lemma length_core_short: "length (position_core position_short) = 100"
  by (simp add: position_core_short u_def)

lemma length_header_core: "length (header_core example_timestamp) = 135"
  by (simp add: header_core_example u_def)

lemma nn_free_core_long: "nn_free (position_core position_long)"
  by (simp add: position_core_long u_def nn_free_def rocket_def)

lemma nn_free_core_short: "nn_free (position_core position_short)"
  by (simp add: position_core_short u_def nn_free_def)

lemma nn_free_header_core: "nn_free (header_core example_timestamp)"
  by (simp add: header_core_example u_def nn_free_def)

lemma html_escape_numbered:
  "k < 10 \<Longrightarrow> html_escape (u ''Whale '' @ [48 + k]) = u ''Whale '' @ [48 + k]"
  by (simp add: html_escape_def escape_char_def u_def)

lemma whale_header_numbered:
  "k < 10 \<Longrightarrow>
   whale_header_text (numbered_whale k) 600 =
     u ''<b>'' @ [128202] @ u '' <a href='' @ [39]
     @ u ''https://www.coinglass.com/hyperliquid/0x1234567890abcdef1234567890abcdef1234567''
     @ [48 + k, 39] @ u ''>Whale '' @ [48 + k]
     @ u ''</a></b>\<newline><code>Address: 0x1234...567'' @ [48 + k]
     @ u ''</code>\<newline><code>Total Value: $600</code>\<newline><code>----------------------------------------</code>\<newline>''"
  by (simp add: whale_header_text_def numbered_whale_def Let_def str_nat_small
      html_escape_numbered format_value_600 replicate_40_45)
     (simp add: u_def)

lemma length_block_head: "k < 10 \<Longrightarrow> length (block_head k) = 334"
  by (simp add: block_head_def whale_header_numbered length_core_long) (simp add: u_def)

lemma nn_free_block_head: "k < 10 \<Longrightarrow> nn_free (block_head k)"
  by (simp add: block_head_def whale_header_numbered position_core_long)
     (simp add: u_def nn_free_def rocket_def)

lemma nn_free_nl_block_head: "k < 10 \<Longrightarrow> nn_free (10 # block_head k)"
  by (simp add: block_head_def whale_header_numbered position_core_long)
     (simp add: u_def nn_free_def rocket_def)

lemma last_part_eq:
  "last_part =
     u ''\<newline><code>========================================</code>\<newline><b>'' @ [128200]
     @ u '' SUMMARY</b>\<newline>Active Whales: 9/9\<newline>Total Positions: 18\<newline>Total Value: $5K\<newline>''"
  by (simp add: last_part_def footer_text_def format_value_5400 replicate_40_61 str_nat.simps)
     (simp add: u_def)

lemma length_last_part: "length last_part = 128"
  by (simp add: last_part_eq u_def)

lemma no_nn_last_part: "no_nn last_part"
  by (simp add: last_part_eq u_def)

lemma fetch_two_positions:
  "get_whale_positions parse_decimal (post_two_positions i a) = [position_long, position_short]"
  by (simp add: post_two_positions_def get_whale_positions_def try_response_body
      process_entry_long process_entry_short sort_by_value_desc_def position_long_def
      position_short_def position_record_def)

lemma whale_value_two: "whale_value [position_long, position_short] = 600"
  by (simp add: whale_value_def position_long_def position_short_def position_record_def)

lemma fetched_constant:
  "(\<And>i a. get_whale_positions fs (post i a) = ps) \<Longrightarrow>
   fetched fs post i ws = map (\<lambda>w. (w, ps)) ws"
  by (induction ws arbitrary: i) simp_all

lemma fetched_nine:
  "fetched parse_decimal post_two_positions 0 nine_whales
     = map (\<lambda>w. (w, [position_long, position_short])) nine_whales"
  by (rule fetched_constant) (rule fetch_two_positions)

lemma whale_block_numbered:
  "whale_block_text (numbered_whale k) [position_long, position_short] =
     block_head k @ 10 # 10 # position_core position_short @ [10, 10, 10]"
  by (simp add: whale_block_text_def whale_value_two block_head_def position_text_core u_def)

lemma report_nine:
  "get_all_whale_positions parse_decimal post_two_positions example_timestamp nine_whales =
     header_text example_timestamp
     @ concat (map (\<lambda>w. whale_block_text w [position_long, position_short])
                 (map numbered_whale [1, 2, 3, 4, 5, 6, 7, 8]))
     @ whale_block_text (numbered_whale 9) [position_long, position_short]
     @ footer_text 9 9 18 5400"
proof -
  have inc: "included parse_decimal post_two_positions nine_whales
     = map (\<lambda>w. (w, [position_long, position_short])) nine_whales"
    unfolding included_def fetched_nine by (simp add: filter_map o_def)
  have len: "length nine_whales = 9"
    by (simp add: nine_whales_def)
  have "sum_list (map (\<lambda>w. Suc (Suc 0)) ws) = length ws * 2" for ws :: "whale list"
    by (induction ws) simp_all
  then have cnt: "sum_list (map (\<lambda>(w, ps). length ps)
                    (map (\<lambda>w. (w, [position_long, position_short])) nine_whales)) = 18"
    by (simp add: o_def len)
  have "sum_list (map (\<lambda>w. 600) ws) = real (length ws) * 600" for ws :: "whale list"
    by (induction ws) (simp_all add: algebra_simps)
  then have val: "sum_list (map (\<lambda>(w, ps). whale_value ps)
                    (map (\<lambda>w. (w, [position_long, position_short])) nine_whales)) = 5400"
    by (simp add: o_def len whale_value_two)
  show ?thesis
    unfolding report_shape inc fetched_nine cnt val
    by (simp add: len o_def) (simp add: nine_whales_def)
qed

lemma report_nine_parts:
  "get_all_whale_positions parse_decimal post_two_positions example_timestamp nine_whales =
     header_core example_timestamp @ 10 # 10 # block_head 1 @ 10 # 10 # position_core position_short @
       10 # 10 # 10 # block_head 2 @ 10 # 10 # position_core position_short @
       10 # 10 # 10 # block_head 3 @ 10 # 10 # position_core position_short @
       10 # 10 # 10 # block_head 4 @ 10 # 10 # position_core position_short @
       10 # 10 # 10 # block_head 5 @ 10 # 10 # position_core position_short @
       10 # 10 # 10 # block_head 6 @ 10 # 10 # position_core position_short @
       10 # 10 # 10 # block_head 7 @ 10 # 10 # position_core position_short @
       10 # 10 # 10 # block_head 8 @ 10 # 10 # position_core position_short @
       10 # 10 # 10 # block_head 9 @ 10 # 10 # position_core position_short @
       10 # 10 # last_part"
  by (simp add: report_nine whale_block_numbered header_text_core last_part_def u_def)

lemma split_nn_free_Cons:
  "nn_free (a # s) \<Longrightarrow> py_split_nn (a # s @ 10 # 10 # rest) = (a # s) # py_split_nn rest"
  using split_nn_free [of "a # s" rest] by simp

lemma parts_nine:
  "py_split_nn
     (header_core example_timestamp @ 10 # 10 # block_head 1 @ 10 # 10 # position_core position_short @
       10 # 10 # 10 # block_head 2 @ 10 # 10 # position_core position_short @
       10 # 10 # 10 # block_head 3 @ 10 # 10 # position_core position_short @
       10 # 10 # 10 # block_head 4 @ 10 # 10 # position_core position_short @
       10 # 10 # 10 # block_head 5 @ 10 # 10 # position_core position_short @
       10 # 10 # 10 # block_head 6 @ 10 # 10 # position_core position_short @
       10 # 10 # 10 # block_head 7 @ 10 # 10 # position_core position_short @
       10 # 10 # 10 # block_head 8 @ 10 # 10 # position_core position_short @
       10 # 10 # 10 # block_head 9 @ 10 # 10 # position_core position_short @
       10 # 10 # last_part)
   = [header_core example_timestamp,
        block_head 1,
        position_core position_short,
        10 # block_head 2,
        position_core position_short,
        10 # block_head 3,
        position_core position_short,
        10 # block_head 4,
        position_core position_short,
        10 # block_head 5,
        position_core position_short,
        10 # block_head 6,
        position_core position_short,
        10 # block_head 7,
        position_core position_short,
        10 # block_head 8,
        position_core position_short,
        10 # block_head 9,
        position_core position_short,
        last_part]"
  by (simp only: split_nn_free split_nn_free_Cons split_no_nn nn_free_header_core
      nn_free_block_head nn_free_nl_block_head nn_free_core_short no_nn_last_part)

lemma header_core_not_Nil: "header_core example_timestamp \<noteq> []"
  using length_header_core by auto

lemma core_short_not_Nil: "position_core position_short \<noteq> []"
  using length_core_short by auto

lemma split_nine:
  "split_message
     (header_core example_timestamp @ 10 # 10 # block_head 1 @ 10 # 10 # position_core position_short @
       10 # 10 # 10 # block_head 2 @ 10 # 10 # position_core position_short @
       10 # 10 # 10 # block_head 3 @ 10 # 10 # position_core position_short @
       10 # 10 # 10 # block_head 4 @ 10 # 10 # position_core position_short @
       10 # 10 # 10 # block_head 5 @ 10 # 10 # position_core position_short @
       10 # 10 # 10 # block_head 6 @ 10 # 10 # position_core position_short @
       10 # 10 # 10 # block_head 7 @ 10 # 10 # position_core position_short @
       10 # 10 # 10 # block_head 8 @ 10 # 10 # position_core position_short @
       10 # 10 # 10 # block_head 9 @ 10 # 10 # position_core position_short @
       10 # 10 # last_part)
   = [header_core example_timestamp @ 10 # 10 # block_head 1 @ 10 # 10 # position_core position_short @
       10 # 10 # 10 # block_head 2 @ 10 # 10 # position_core position_short @
       10 # 10 # 10 # block_head 3 @ 10 # 10 # position_core position_short @
       10 # 10 # 10 # block_head 4 @ 10 # 10 # position_core position_short @
       10 # 10 # 10 # block_head 5 @ 10 # 10 # position_core position_short @
       10 # 10 # 10 # block_head 6 @ 10 # 10 # position_core position_short @
       10 # 10 # 10 # block_head 7 @ 10 # 10 # position_core position_short @
       10 # 10 # 10 # block_head 8 @ 10 # 10 # position_core position_short @
       10 # 10 # 10 # block_head 9,
      position_core position_short @ 10 # 10 # last_part]"
  unfolding split_message_def parts_nine
  by (simp add: u_nn length_header_core length_block_head length_core_short length_last_part
      header_core_not_Nil core_short_not_Nil)

lemma length_report_nine:
  "length (get_all_whale_positions parse_decimal post_two_positions example_timestamp nine_whales)
     = 4215"
  unfolding report_nine_parts
  by (simp add: length_header_core length_block_head length_core_short length_last_part)

lemma first_payload_nine:
  "header_core example_timestamp @ 10 # 10 # block_head 1 @ 10 # 10 # position_core position_short @
       10 # 10 # 10 # block_head 2 @ 10 # 10 # position_core position_short @
       10 # 10 # 10 # block_head 3 @ 10 # 10 # position_core position_short @
       10 # 10 # 10 # block_head 4 @ 10 # 10 # position_core position_short @
       10 # 10 # 10 # block_head 5 @ 10 # 10 # position_core position_short @
       10 # 10 # 10 # block_head 6 @ 10 # 10 # position_core position_short @
       10 # 10 # 10 # block_head 7 @ 10 # 10 # position_core position_short @
       10 # 10 # 10 # block_head 8 @ 10 # 10 # position_core position_short @
       10 # 10 # 10 # block_head 9
   = header_text example_timestamp
     @ concat (map (\<lambda>w. whale_block_text w [position_long, position_short])
                 (map numbered_whale [1, 2, 3, 4, 5, 6, 7, 8]))
     @ whale_header_text (numbered_whale 9) (whale_value [position_long, position_short])
     @ position_core position_long"
  by (simp add: whale_block_numbered header_text_core whale_value_two block_head_def)

lemma second_payload_nine:
  "position_core position_short @ 10 # 10 # last_part
   = position_core position_short @ u ''\<newline>\<newline>\<newline>'' @ footer_text 9 9 18 5400"
  by (simp add: last_part_def u_def)

text \<open>
  C4 at a failing input. Nine whales, each with a BTC and an ETH position: the report
  has 4215 characters and is sent as two payloads. The first ends with the header of the
  ninth whale and its first position; the second starts with the second position of the
  ninth whale. The block of the ninth whale spans the split: every position ends with a
  double newline, so the separator also stands between two positions of one whale.
\<close>

theorem split_inside_whale_block:
  "4000 < length (get_all_whale_positions parse_decimal post_two_positions example_timestamp
                    nine_whales)
   \<and> fetched parse_decimal post_two_positions 0 nine_whales
       = map (\<lambda>w. (w, [position_long, position_short])) nine_whales
   \<and> get_all_whale_positions parse_decimal post_two_positions example_timestamp nine_whales
       = header_text example_timestamp
         @ concat (map (\<lambda>w. whale_block_text w [position_long, position_short])
                     (map numbered_whale [1, 2, 3, 4, 5, 6, 7, 8]))
         @ whale_block_text (numbered_whale 9) [position_long, position_short]
         @ footer_text 9 9 18 5400
   \<and> whale_block_text (numbered_whale 9) [position_long, position_short]
       = whale_header_text (numbered_whale 9) (whale_value [position_long, position_short])
         @ position_core position_long @ u ''\<newline>\<newline>''
         @ position_core position_short @ u ''\<newline>\<newline>\<newline>''
   \<and> handle_message (u ''go'')
         (get_all_whale_positions parse_decimal post_two_positions example_timestamp nine_whales)
       = [header_text example_timestamp
          @ concat (map (\<lambda>w. whale_block_text w [position_long, position_short])
                      (map numbered_whale [1, 2, 3, 4, 5, 6, 7, 8]))
          @ whale_header_text (numbered_whale 9) (whale_value [position_long, position_short])
          @ position_core position_long,
          position_core position_short @ u ''\<newline>\<newline>\<newline>'' @ footer_text 9 9 18 5400]"
proof -
  have a: "4000 < length (get_all_whale_positions parse_decimal post_two_positions
                            example_timestamp nine_whales)"
    by (simp add: length_report_nine)
  have b: "whale_block_text (numbered_whale 9) [position_long, position_short]
       = whale_header_text (numbered_whale 9) (whale_value [position_long, position_short])
         @ position_core position_long @ u ''\<newline>\<newline>''
         @ position_core position_short @ u ''\<newline>\<newline>\<newline>''"
    by (simp add: whale_block_numbered block_head_def whale_value_two u_def)
  have "handle_message (u ''go'')
         (get_all_whale_positions parse_decimal post_two_positions example_timestamp nine_whales)
       = split_message
           (get_all_whale_positions parse_decimal post_two_positions example_timestamp nine_whales)"
    using a by (simp add: handle_message_def)
  also have "\<dots> = [header_core example_timestamp @ 10 # 10 # block_head 1 @ 10 # 10 # position_core position_short @
       10 # 10 # 10 # block_head 2 @ 10 # 10 # position_core position_short @
       10 # 10 # 10 # block_head 3 @ 10 # 10 # position_core position_short @
       10 # 10 # 10 # block_head 4 @ 10 # 10 # position_core position_short @
       10 # 10 # 10 # block_head 5 @ 10 # 10 # position_core position_short @
       10 # 10 # 10 # block_head 6 @ 10 # 10 # position_core position_short @
       10 # 10 # 10 # block_head 7 @ 10 # 10 # position_core position_short @
       10 # 10 # 10 # block_head 8 @ 10 # 10 # position_core position_short @
       10 # 10 # 10 # block_head 9,
      position_core position_short @ 10 # 10 # last_part]"
    unfolding report_nine_parts by (rule split_nine)
  finally have c: "handle_message (u ''go'')
         (get_all_whale_positions parse_decimal post_two_positions example_timestamp nine_whales)
       = [header_text example_timestamp
          @ concat (map (\<lambda>w. whale_block_text w [position_long, position_short])
                      (map numbered_whale [1, 2, 3, 4, 5, 6, 7, 8]))
          @ whale_header_text (numbered_whale 9) (whale_value [position_long, position_short])
          @ position_core position_long,
          position_core position_short @ u ''\<newline>\<newline>\<newline>'' @ footer_text 9 9 18 5400]"
    unfolding first_payload_nine second_payload_nine .
  from a fetched_nine report_nine b c show ?thesis by blast
qed

section \<open>Properties of the fetch in float arithmetic\<close>

lemma py_lt_asym: "py_lt a b \<Longrightarrow> \<not> py_lt b a"
  by (cases a; cases b) auto

lemma py_lt_trans_neg:
  "a \<noteq> NaN \<Longrightarrow> b \<noteq> NaN \<Longrightarrow> c \<noteq> NaN \<Longrightarrow>
   \<not> py_lt b a \<Longrightarrow> \<not> py_lt c b \<Longrightarrow> \<not> py_lt c a"
  by (cases a; cases b; cases c) auto

lemma set_insort_value_f: "set (insort_value_f x ys) = insert x (set ys)"
  by (induction ys) auto

lemma mset_insort_value_f: "mset (insort_value_f x ys) = add_mset x (mset ys)"
  by (induction ys) auto

lemma mset_foldr_insort_value_f: "mset (foldr insort_value_f xs []) = mset xs"
  by (induction xs) (simp_all add: mset_insort_value_f)

lemma mset_sort_by_value_desc_f: "mset (sort_by_value_desc_f xs) = mset xs"
  by (simp add: sort_by_value_desc_f_def mset_foldr_insort_value_f)

lemma set_sort_by_value_desc_f: "set (sort_by_value_desc_f xs) = set xs"
  using mset_sort_by_value_desc_f [of xs] by (metis set_mset_mset)

lemma sorted_insort_value_f:
  assumes "posf_value x \<noteq> NaN" "\<forall>y \<in> set ys. posf_value y \<noteq> NaN"
    "sorted_wrt (\<lambda>a b. \<not> py_lt (posf_value b) (posf_value a)) ys"
  shows "sorted_wrt (\<lambda>a b. \<not> py_lt (posf_value b) (posf_value a)) (insort_value_f x ys)"
  using assms
proof (induction ys)
  case Nil
  then show ?case by simp
next
  case (Cons y ys)
  show ?case
  proof (cases "py_lt (posf_value y) (posf_value x)")
    case True
    then have "\<not> py_lt (posf_value x) (posf_value y)" by (rule py_lt_asym)
    with True Cons show ?thesis by (auto simp: set_insort_value_f)
  next
    case False
    have "\<not> py_lt (posf_value z) (posf_value x)" if "z \<in> set ys" for z
    proof -
      from Cons.prems(3) that have "\<not> py_lt (posf_value z) (posf_value y)" by simp
      with False Cons.prems(1,2) that show ?thesis
        by (intro py_lt_trans_neg [of "posf_value x" "posf_value y" "posf_value z"]) simp_all
    qed
    with False Cons.prems(3) show ?thesis by simp
  qed
qed

lemma sorted_foldr_insort_value_f:
  "\<forall>y \<in> set xs. posf_value y \<noteq> NaN \<Longrightarrow>
   sorted_wrt (\<lambda>a b. \<not> py_lt (posf_value b) (posf_value a)) (foldr insort_value_f xs [])"
proof (induction xs)
  case Nil
  show ?case by simp
next
  case (Cons x xs)
  then have "\<forall>y \<in> set (foldr insort_value_f xs []). posf_value y \<noteq> NaN"
    using mset_foldr_insort_value_f [of xs] by (metis list.set_intros(2) set_mset_mset)
  with Cons show ?case by (simp add: sorted_insort_value_f)
qed

lemma sorted_sort_by_value_desc_f:
  assumes "\<forall>y \<in> set xs. posf_value y \<noteq> NaN"
  shows "sorted_wrt (\<lambda>a b. py_ge (posf_value a) (posf_value b)) (sort_by_value_desc_f xs)"
proof -
  from assms have n: "\<forall>y \<in> set (rev xs). posf_value y \<noteq> NaN" by simp
  have a: "sorted_wrt (\<lambda>a b. \<not> py_lt (posf_value a) (posf_value b)) (sort_by_value_desc_f xs)"
    using sorted_foldr_insort_value_f [OF n]
    by (simp add: sort_by_value_desc_f_def sorted_wrt_rev)
  have b: "\<forall>y \<in> set (sort_by_value_desc_f xs). posf_value y \<noteq> NaN"
    using assms by (simp add: set_sort_by_value_desc_f)
  show ?thesis
  proof (rule sorted_wrt_mono_rel [OF _ a])
    fix x y
    assume "x \<in> set (sort_by_value_desc_f xs)" "y \<in> set (sort_by_value_desc_f xs)"
      "\<not> py_lt (posf_value x) (posf_value y)"
    with b show "py_ge (posf_value x) (posf_value y)" by (simp add: py_ge_def)
  qed
qed

lemma py_ge_NaN: "\<not> py_ge NaN b" "\<not> py_ge a NaN"
  by (simp_all add: py_ge_def)

lemma nan_value_unsorted:
  assumes "p \<in> set ys" "posf_value p = NaN" "2 \<le> length ys"
  shows "\<not> sorted_wrt (\<lambda>a b. py_ge (posf_value a) (posf_value b)) ys"
proof
  assume s: "sorted_wrt (\<lambda>a b. py_ge (posf_value a) (posf_value b)) ys"
  from s have nth: "py_ge (posf_value (ys ! i)) (posf_value (ys ! j))"
    if "i < j" "j < length ys" for i j
    using that by (simp add: sorted_wrt_iff_nth_less)
  from assms(1) obtain k where k: "k < length ys" "ys ! k = p" by (auto simp: in_set_conv_nth)
  have pk: "posf_value (ys ! k) = NaN" using k(2) assms(2) by simp
  from assms(3) k(1) obtain j where j: "j < length ys" "j \<noteq> k"
    by (cases "k = 0") (auto intro: that [of 0] that [of 1])
  show False
  proof (cases "j < k")
    case True
    then have "py_ge (posf_value (ys ! j)) (posf_value (ys ! k))"
      using k(1) by (rule nth)
    then show False unfolding pk by (simp add: py_ge_NaN)
  next
    case False
    with j have "k < j" by simp
    then have "py_ge (posf_value (ys ! k)) (posf_value (ys ! j))"
      using j(1) by (rule nth)
    then show False unfolding pk by (simp add: py_ge_NaN)
  qed
qed

lemma map_filter_Cons_None_f:
  "f x = None \<Longrightarrow> List.map_filter f (x # xs) = List.map_filter f xs"
  by simp

lemma loop_f_Inr:
  "asset_positions_loop_f fs es acc = Inr ps \<Longrightarrow>
     ps = acc @ List.map_filter (entry_record_f fs) es"
proof (induction es arbitrary: acc)
  case Nil
  then show ?case by simp
next
  case (Cons e es)
  show ?case
  proof (cases "process_asset_position_f fs e")
    case (Inl err)
    with Cons.prems show ?thesis by simp
  next
    case (Inr r)
    show ?thesis
    proof (cases r)
      case None
      with Inr have er: "entry_record_f fs e = None" by (simp add: entry_record_f_def)
      from Cons.prems Inr None have "asset_positions_loop_f fs es acc = Inr ps" by simp
      from Cons.IH [OF this] show ?thesis using er by simp
    next
      case (Some p)
      with Inr have er: "entry_record_f fs e = Some p" by (simp add: entry_record_f_def)
      from Cons.prems Inr Some have "asset_positions_loop_f fs es (acc @ [p]) = Inr ps" by simp
      from Cons.IH [OF this] show ?thesis using er by simp
    qed
  qed
qed

lemma try_f_Inr:
  assumes "get_whale_positions_try_f fs (Response 200 (Some data)) = Inr ps"
  shows "ps = sort_by_value_desc_f (List.map_filter (entry_record_f fs) (response_entries data))"
proof -
  from assms obtain aps es positions where
    a: "py_get data (u ''assetPositions'') (JArr []) = Inr aps"
    and b: "py_iter aps = Inr es"
    and c: "asset_positions_loop_f fs es [] = Inr positions"
    and d: "ps = sort_by_value_desc_f positions"
    by (auto simp: get_whale_positions_try_f_def and_then_Inr_iff)
  have re: "response_entries data = es" by (simp add: response_entries_def a b)
  from loop_f_Inr [OF c] d re show ?thesis by simp
qed

lemma try_f_Inr_any:
  assumes "get_whale_positions_try_f fs r = Inr ps"
  shows "ps = [] \<or> (\<exists>xs. ps = sort_by_value_desc_f xs)"
proof (cases r)
  case (RequestRaises e)
  with assms show ?thesis by (simp add: get_whale_positions_try_f_def)
next
  case (Response status body)
  show ?thesis
  proof (cases "status = 200")
    case False
    with assms Response show ?thesis by (simp add: get_whale_positions_try_f_def)
  next
    case True
    show ?thesis
    proof (cases body)
      case None
      with assms Response True show ?thesis by (simp add: get_whale_positions_try_f_def)
    next
      case (Some data)
      with assms Response True try_f_Inr [of fs data ps] show ?thesis by blast
    qed
  qed
qed

text \<open>
  C6, as amended. When none of the returned positions has the value NaN, the returned
  list is ordered by value, non-increasing in the order \<open>>=\<close> of floats; and for a response
  of status 200 processed without an exception the returned list has exactly the records
  of the entries, each as often as it was produced.
\<close>

theorem positions_sorted_desc_without_nan:
  assumes "\<forall>p \<in> set (get_whale_positions_f fs r). posf_value p \<noteq> NaN"
  shows "sorted_wrt (\<lambda>a b. py_ge (posf_value a) (posf_value b)) (get_whale_positions_f fs r)
       \<and> (r = Response 200 (Some data) \<and> get_whale_positions_try_f fs r = Inr ps \<longrightarrow>
            mset (get_whale_positions_f fs r)
              = mset (List.map_filter (entry_record_f fs) (response_entries data)))"
proof -
  have 1: "sorted_wrt (\<lambda>a b. py_ge (posf_value a) (posf_value b)) (get_whale_positions_f fs r)"
  proof (cases "get_whale_positions_try_f fs r")
    case (Inl e)
    then show ?thesis by (simp add: get_whale_positions_f_def)
  next
    case (Inr qs)
    then have g: "get_whale_positions_f fs r = qs" by (simp add: get_whale_positions_f_def)
    from try_f_Inr_any [OF Inr] show ?thesis
    proof
      assume "qs = []"
      with g show ?thesis by simp
    next
      assume "\<exists>xs. qs = sort_by_value_desc_f xs"
      then obtain xs where xs: "qs = sort_by_value_desc_f xs" by blast
      with assms g have "\<forall>y \<in> set xs. posf_value y \<noteq> NaN"
        by (simp add: set_sort_by_value_desc_f)
      from sorted_sort_by_value_desc_f [OF this] g xs show ?thesis by simp
    qed
  qed
  have 2: "mset (get_whale_positions_f fs r)
              = mset (List.map_filter (entry_record_f fs) (response_entries data))"
    if "r = Response 200 (Some data)" "get_whale_positions_try_f fs r = Inr ps"
  proof -
    from that have "ps = sort_by_value_desc_f
                           (List.map_filter (entry_record_f fs) (response_entries data))"
      by (intro try_f_Inr) simp
    with that(2) show ?thesis
      by (simp add: get_whale_positions_f_def mset_sort_by_value_desc_f)
  qed
  from 1 2 show ?thesis by blast
qed

lemma parse_float_1: "parse_float (u ''1'') = Some (Fin 1)"
  by (simp add: parse_float_def parse_decimal_def parse_unsigned_def u_def)

lemma parse_float_2: "parse_float (u ''2'') = Some (Fin 2)"
  by (simp add: parse_float_def parse_decimal_def parse_unsigned_def u_def)

lemma parse_float_0: "parse_float (u ''0'') = Some (Fin 0)"
  by (simp add: parse_float_def parse_decimal_def parse_unsigned_def u_def)

lemma parse_float_100: "parse_float (u ''100'') = Some (Fin 100)"
  by (simp add: parse_float_def parse_decimal_def parse_unsigned_def u_def)

lemma parse_float_150: "parse_float (u ''150'') = Some (Fin 150)"
  by (simp add: parse_float_def parse_decimal_def parse_unsigned_def u_def)

lemma parse_float_2000: "parse_float (u ''2000'') = Some (Fin 2000)"
  by (simp add: parse_float_def parse_decimal_def parse_unsigned_def u_def)

lemma parse_float_frac: "parse_float (u ''12.5'') = Some (Fin (25 / 2))"
  by (simp add: parse_float_def parse_decimal_def parse_unsigned_def u_def)

lemma parse_float_nan: "parse_float (u ''nan'') = Some NaN"
  by (simp add: parse_float_def)

lemma process_raw_entry_f:
  assumes "c \<in> set WHITELISTED_TOKENS" "py_float_f fs szi = Inr sz" "py_ne sz (Fin 0)"
    "py_float_f fs epx = Inr e" "py_float_f fs mpx = Inr m" "py_float_f fs up = Inr x"
  shows "process_asset_position_f fs (raw_entry c szi epx mpx up)
           = Inr (Some (position_record_f (JStr c) sz e m x))"
  using assms
  by (simp add: process_asset_position_f_def raw_entry_def process_position_f_def
      dict_get_def u_def)

lemma try_response_body_f:
  "get_whale_positions_try_f fs (Response 200 (Some (response_body es)))
     = and_then (asset_positions_loop_f fs es [])
         (\<lambda>positions. Inr (sort_by_value_desc_f positions))"
  by (simp add: get_whale_positions_try_f_def response_body_def dict_get_def)

lemma process_entry_value_1:
  "process_asset_position_f parse_float entry_value_1
     = Inr (Some (position_record_f (JStr (u ''BTC'')) (Fin 1) (Fin 100) (Fin 1) (Fin 0)))"
  unfolding entry_value_1_def
  by (intro process_raw_entry_f)
     (simp_all add: btc_whitelisted parse_float_1 parse_float_100 parse_float_0 py_ne_def)

lemma process_entry_value_nan:
  "process_asset_position_f parse_float entry_value_nan
     = Inr (Some (position_record_f (JStr (u ''ETH'')) NaN (Fin 100) (Fin 1) (Fin 0)))"
  unfolding entry_value_nan_def
  by (intro process_raw_entry_f)
     (simp_all add: eth_whitelisted parse_float_nan parse_float_1 parse_float_100 parse_float_0
        py_ne_def)

lemma process_entry_value_2:
  "process_asset_position_f parse_float entry_value_2
     = Inr (Some (position_record_f (JStr (u ''SOL'')) (Fin 2) (Fin 100) (Fin 1) (Fin 0)))"
  unfolding entry_value_2_def
  by (intro process_raw_entry_f)
     (simp_all add: sol_whitelisted parse_float_2 parse_float_1 parse_float_100 parse_float_0
        py_ne_def)

lemma process_entry_long_f:
  "process_asset_position_f parse_float entry_long
     = Inr (Some (position_record_f (JStr (u ''BTC'')) (Fin 2) (Fin 100) (Fin 150) (Fin (25 / 2))))"
  unfolding entry_long_def
  by (intro process_raw_entry_f)
     (simp_all add: btc_whitelisted parse_float_2 parse_float_100 parse_float_150
        parse_float_frac py_ne_def)

lemma process_entry_value_4000:
  "process_asset_position_f parse_float entry_value_4000
     = Inr (Some (position_record_f (JStr (u ''ETH'')) (Fin 2) (Fin 100) (Fin 2000) (Fin 0)))"
  unfolding entry_value_4000_def
  by (intro process_raw_entry_f)
     (simp_all add: eth_whitelisted parse_float_2 parse_float_100 parse_float_2000
        parse_float_0 py_ne_def)

lemma value_record_f: "posf_value (position_record_f c sz e m x) = py_abs (py_mul sz m)"
  by (simp add: position_record_f_def)

lemma fetch_nan:
  "get_whale_positions_f parse_float
     (Response 200 (Some (response_body [entry_value_1, entry_value_nan, entry_value_2])))
   = [position_record_f (JStr (u ''BTC'')) (Fin 1) (Fin 100) (Fin 1) (Fin 0),
      position_record_f (JStr (u ''ETH'')) NaN (Fin 100) (Fin 1) (Fin 0),
      position_record_f (JStr (u ''SOL'')) (Fin 2) (Fin 100) (Fin 1) (Fin 0)]"
  by (simp add: get_whale_positions_f_def try_response_body_f process_entry_value_1
      process_entry_value_nan process_entry_value_2 sort_by_value_desc_f_def value_record_f)

lemma fetch_two_values:
  "get_whale_positions_f parse_float
     (Response 200 (Some (response_body [entry_long, entry_value_4000])))
   = [position_record_f (JStr (u ''ETH'')) (Fin 2) (Fin 100) (Fin 2000) (Fin 0),
      position_record_f (JStr (u ''BTC'')) (Fin 2) (Fin 100) (Fin 150) (Fin (25 / 2))]"
  by (simp add: get_whale_positions_f_def try_response_body_f process_entry_long_f
      process_entry_value_4000 sort_by_value_desc_f_def value_record_f)

text \<open>
  C6 as stated fails: three entries with the values 1, NaN and 2 are returned in this
  order, which is not non-increasing; and no order of these three records is, since NaN
  is not \<open>>=\<close> anything and nothing is \<open>>=\<close> NaN.
\<close>

theorem nan_value_not_sorted:
  "get_whale_positions_f parse_float
     (Response 200 (Some (response_body [entry_value_1, entry_value_nan, entry_value_2])))
   = [position_record_f (JStr (u ''BTC'')) (Fin 1) (Fin 100) (Fin 1) (Fin 0),
      position_record_f (JStr (u ''ETH'')) NaN (Fin 100) (Fin 1) (Fin 0),
      position_record_f (JStr (u ''SOL'')) (Fin 2) (Fin 100) (Fin 1) (Fin 0)]
   \<and> map posf_value
       (get_whale_positions_f parse_float
          (Response 200 (Some (response_body [entry_value_1, entry_value_nan, entry_value_2]))))
     = [Fin 1, NaN, Fin 2]
   \<and> \<not> sorted_wrt (\<lambda>a b. py_ge (posf_value a) (posf_value b))
         (get_whale_positions_f parse_float
            (Response 200 (Some (response_body [entry_value_1, entry_value_nan, entry_value_2]))))
   \<and> \<not> (\<exists>ys. mset ys
               = mset (get_whale_positions_f parse_float
                        (Response 200
                           (Some (response_body [entry_value_1, entry_value_nan, entry_value_2]))))
            \<and> sorted_wrt (\<lambda>a b. py_ge (posf_value a) (posf_value b)) ys)"
proof -
  have v: "map posf_value
       (get_whale_positions_f parse_float
          (Response 200 (Some (response_body [entry_value_1, entry_value_nan, entry_value_2]))))
     = [Fin 1, NaN, Fin 2]"
    by (simp add: fetch_nan value_record_f)
  have n: "\<not> sorted_wrt (\<lambda>a b. py_ge (posf_value a) (posf_value b)) ys"
    if m: "mset ys
         = mset (get_whale_positions_f parse_float
                  (Response 200
                     (Some (response_body [entry_value_1, entry_value_nan, entry_value_2]))))"
    for ys
  proof (rule nan_value_unsorted)
    from m have "set ys = set (get_whale_positions_f parse_float
                  (Response 200
                     (Some (response_body [entry_value_1, entry_value_nan, entry_value_2]))))"
      by (rule mset_eq_setD)
    then show "position_record_f (JStr (u ''ETH'')) NaN (Fin 100) (Fin 1) (Fin 0) \<in> set ys"
      by (simp add: fetch_nan)
    show "posf_value (position_record_f (JStr (u ''ETH'')) NaN (Fin 100) (Fin 1) (Fin 0)) = NaN"
      by (simp add: value_record_f)
    from m have "length ys = length (get_whale_positions_f parse_float
                  (Response 200
                     (Some (response_body [entry_value_1, entry_value_nan, entry_value_2]))))"
      by (rule mset_eq_length)
    then show "2 \<le> length ys" by (simp add: fetch_nan)
  qed
  from n [OF refl] n fetch_nan v show ?thesis by blast
qed

text \<open>
  A response with a position of value 300 followed by one of value 4000: both records
  are returned, the one of value 4000 first.
\<close>

theorem positions_sorted_desc_without_nan_witness:
  "get_whale_positions_f parse_float
     (Response 200 (Some (response_body [entry_long, entry_value_4000])))
   = [position_record_f (JStr (u ''ETH'')) (Fin 2) (Fin 100) (Fin 2000) (Fin 0),
      position_record_f (JStr (u ''BTC'')) (Fin 2) (Fin 100) (Fin 150) (Fin (25 / 2))]
   \<and> map posf_value
       (get_whale_positions_f parse_float
          (Response 200 (Some (response_body [entry_long, entry_value_4000]))))
     = [Fin 4000, Fin 300]
   \<and> map (entry_record_f parse_float) [entry_long, entry_value_4000]
     = [Some (position_record_f (JStr (u ''BTC'')) (Fin 2) (Fin 100) (Fin 150) (Fin (25 / 2))),
        Some (position_record_f (JStr (u ''ETH'')) (Fin 2) (Fin 100) (Fin 2000) (Fin 0))]
   \<and> sorted_wrt (\<lambda>a b. py_ge (posf_value a) (posf_value b))
       (get_whale_positions_f parse_float
          (Response 200 (Some (response_body [entry_long, entry_value_4000]))))
   \<and> mset (get_whale_positions_f parse_float
             (Response 200 (Some (response_body [entry_long, entry_value_4000]))))
     = mset (List.map_filter (entry_record_f parse_float) [entry_long, entry_value_4000])"
proof -
  have v: "map posf_value
       (get_whale_positions_f parse_float
          (Response 200 (Some (response_body [entry_long, entry_value_4000]))))
     = [Fin 4000, Fin 300]"
    by (simp add: fetch_two_values value_record_f)
  have h: "\<forall>p \<in> set (get_whale_positions_f parse_float
                        (Response 200 (Some (response_body [entry_long, entry_value_4000])))).
             posf_value p \<noteq> NaN"
    by (simp add: fetch_two_values value_record_f)
  have t: "get_whale_positions_try_f parse_float
             (Response 200 (Some (response_body [entry_long, entry_value_4000])))
           = Inr [position_record_f (JStr (u ''ETH'')) (Fin 2) (Fin 100) (Fin 2000) (Fin 0),
                  position_record_f (JStr (u ''BTC'')) (Fin 2) (Fin 100) (Fin 150) (Fin (25 / 2))]"
    by (simp add: try_response_body_f process_entry_long_f
      process_entry_value_4000 sort_by_value_desc_f_def value_record_f)
  have e: "map (entry_record_f parse_float) [entry_long, entry_value_4000]
     = [Some (position_record_f (JStr (u ''BTC'')) (Fin 2) (Fin 100) (Fin 150) (Fin (25 / 2))),
        Some (position_record_f (JStr (u ''ETH'')) (Fin 2) (Fin 100) (Fin 2000) (Fin 0))]"
    by (simp add: entry_record_f_def process_entry_long_f process_entry_value_4000)
  from positions_sorted_desc_without_nan [OF h,
      of "response_body [entry_long, entry_value_4000]"
         "[position_record_f (JStr (u ''ETH'')) (Fin 2) (Fin 100) (Fin 2000) (Fin 0),
           position_record_f (JStr (u ''BTC'')) (Fin 2) (Fin 100) (Fin 150) (Fin (25 / 2))]"]
    t
  have "sorted_wrt (\<lambda>a b. py_ge (posf_value a) (posf_value b))
       (get_whale_positions_f parse_float
          (Response 200 (Some (response_body [entry_long, entry_value_4000]))))
   \<and> mset (get_whale_positions_f parse_float
             (Response 200 (Some (response_body [entry_long, entry_value_4000]))))
     = mset (List.map_filter (entry_record_f parse_float) [entry_long, entry_value_4000])"
    unfolding response_body_entries by blast
  with fetch_two_values v e show ?thesis by blast
qed

lemma py_float_f_finite:
  "py_float_f (finite_float_str fs) v = map_sum id Fin (py_float fs v)"
  by (cases v) (simp_all add: finite_float_str_def split: option.splits)

lemma get_float_f_finite:
  "get_float_f (finite_float_str fs) x k (Fin d) = map_sum id Fin (get_float fs x k (JNum d))"
  by (cases x) (simp_all add: get_float_def dict_get_def py_float_f_finite split: option.splits)

lemma position_record_f_finite:
  "position_record_f coin (Fin sz) (Fin e) (Fin m) (Fin x)
     = embed_position (position_record coin sz e m x)"
  by (simp add: position_record_f_def position_record_def embed_position_def py_gt_def py_sub_def)

lemma and_then_map_sum:
  "and_then (map_sum id f m) g = and_then m (\<lambda>x. g (f x))"
  by (cases m) simp_all

lemma map_sum_and_then:
  "map_sum id f (and_then m g) = and_then m (\<lambda>x. map_sum id f (g x))"
  by (cases m) simp_all

lemma process_position_f_finite:
  "process_position_f (finite_float_str fs) position
     = map_sum id (map_option embed_position) (process_position fs position)"
  by (simp add: process_position_f_def process_position_def get_float_f_finite and_then_map_sum
      map_sum_and_then position_record_f_finite py_ne_def if_distrib [of "map_sum id _"]
      cong: if_cong)

lemma process_asset_position_f_finite:
  "process_asset_position_f (finite_float_str fs) e
     = map_sum id (map_option embed_position) (process_asset_position fs e)"
  by (simp add: process_asset_position_f_def process_asset_position_def
      process_position_f_finite map_sum_and_then if_distrib [of "map_sum id _"] cong: if_cong)

lemma asset_positions_loop_f_finite:
  "asset_positions_loop_f (finite_float_str fs) es (map embed_position acc)
     = map_sum id (map embed_position) (asset_positions_loop fs es acc)"
proof (induction es arbitrary: acc)
  case Nil
  show ?case by simp
next
  case (Cons e es)
  show ?case
  proof (cases "process_asset_position fs e")
    case (Inl err)
    then show ?thesis by (simp add: process_asset_position_f_finite)
  next
    case (Inr r)
    show ?thesis
    proof (cases r)
      case None
      with Inr Cons.IH [of acc] show ?thesis by (simp add: process_asset_position_f_finite)
    next
      case (Some p)
      with Inr Cons.IH [of "acc @ [p]"] show ?thesis
        by (simp add: process_asset_position_f_finite)
    qed
  qed
qed

lemma insort_value_f_embed:
  "insort_value_f (embed_position x) (map embed_position ys)
     = map embed_position (insort_key pos_value x ys)"
  by (induction ys) (auto simp: embed_position_def)

lemma foldr_insort_value_f_embed:
  "foldr insort_value_f (map embed_position xs) [] = map embed_position (sort_key pos_value xs)"
  by (induction xs) (simp_all add: insort_value_f_embed)

lemma rev_sort_rev:
  fixes g :: "'a \<Rightarrow> real"
  shows "rev (sort_key g (rev xs)) = sort_key (\<lambda>x. - g x) xs"
proof (rule properties_for_sort_key [symmetric])
  show "mset (rev (sort_key g (rev xs))) = mset xs" by simp
next
  fix k
  have "filter (\<lambda>x. g x = g k) (sort_key g (rev xs)) = filter (\<lambda>x. g x = g k) (rev xs)"
    by (rule sort_key_stable)
  then have "filter (\<lambda>x. g x = g k) (rev (sort_key g (rev xs))) = filter (\<lambda>x. g x = g k) xs"
    by (simp add: rev_filter [symmetric])
  moreover have "(\<lambda>x. - g k = - g x) = (\<lambda>x. g x = g k)" by auto
  ultimately show "filter (\<lambda>x. - g k = - g x) (rev (sort_key g (rev xs)))
                     = filter (\<lambda>x. - g k = - g x) xs"
    by simp
next
  have "sorted (map g (sort_key g (rev xs)))" by (rule sorted_sort_key)
  then show "sorted (map (\<lambda>x. - g x) (rev (sort_key g (rev xs))))"
    by (simp add: sorted_map sorted_wrt_rev)
qed

lemma sort_by_value_desc_f_embed:
  "sort_by_value_desc_f (map embed_position xs) = map embed_position (sort_by_value_desc xs)"
proof -
  have "sort_by_value_desc_f (map embed_position xs)
          = rev (map embed_position (sort_key pos_value (rev xs)))"
    unfolding sort_by_value_desc_f_def rev_map foldr_insort_value_f_embed ..
  also have "\<dots> = map embed_position (rev (sort_key pos_value (rev xs)))"
    by (simp add: rev_map)
  finally show ?thesis by (simp add: rev_sort_rev sort_by_value_desc_def)
qed

lemma get_whale_positions_f_finite:
  "get_whale_positions_f (finite_float_str fs) r = map embed_position (get_whale_positions fs r)"
proof -
  have "get_whale_positions_try_f (finite_float_str fs) r
          = map_sum id (map embed_position) (get_whale_positions_try fs r)"
    using asset_positions_loop_f_finite [of fs _ "[]"]
    by (simp add: get_whale_positions_try_f_def get_whale_positions_try_def map_sum_and_then
        and_then_map_sum sort_by_value_desc_f_embed
        split: http_result.splits option.splits)
  then show ?thesis
    by (simp add: get_whale_positions_f_def get_whale_positions_def split: sum.splits)
qed

end
